theory Spec2Isabelle
  imports Main
begin

text \<open>
  A model of the voice bot: the webhook handlers of \<open>app.py\<close>
  (\<open>incoming_call\<close>, \<open>process_speech\<close>, \<open>call_status\<close>, \<open>health\<close>) over the
  session dict, with \<open>RasaHandler\<close>, \<open>SarvamTTS\<close> and the markup generation of
  \<open>TwilioHandler\<close>. Functions keep the names of the source, without the leading
  underscore of the private ones. A function with a \<open>try\<close> block returns
  \<open>exn + 'a\<close>, and each \<open>except\<close> clause is a branch of it. The answers of the
  network and of the file system are parameters. The outbound call path
  (\<open>initiate_call\<close>, \<open>outbound_caller.py\<close>) is not part of the model.
\<close>

section \<open>Python values\<close>

text \<open>
  A Python \<open>str\<close> is modelled as \<open>string\<close>, holding the UTF-8 bytes of the text: an
  ASCII literal of the source is written as it is, the Devanagari, Telugu and Arabic
  script literals as their byte lists. Emptiness, equality, concatenation and the
  substring test agree on the two representations.

  A decoded JSON document (what \<open>response.json()\<close> returns) is a \<open>json\<close> value;
  \<open>JNull\<close> is Python's \<open>None\<close>. An object is the association list of its
  members, looked up with \<open>map_of\<close>; in the dict that the decoder builds a name
  occurs once. JSON numbers matter here only through their truth value and their
  type, and are kept as integers.
\<close>

datatype json =
    JNull
  | JBool bool
  | JNum int
  | JStr string
  | JList "json list"
  | JObj "(string \<times> json) list"

text \<open>The exceptions that the handlers of the source distinguish or catch.\<close>

datatype exn =
    Timeout
  | ConnectionError
  | JSONDecodeError
  | TypeError
  | AttributeError
  | KeyError
  | OtherException

text \<open>
  What one \<open>requests.post\<close> or \<open>requests.get\<close> does: it raises, or it returns a
  response with a status code and a body; the body is \<open>None\<close> when it is not a
  JSON document, in which case \<open>response.json()\<close> raises.
\<close>

datatype http_outcome =
    Raises exn
  | Response int "json option"

definition then_do :: "exn + 'a \<Rightarrow> ('a \<Rightarrow> exn + 'b) \<Rightarrow> exn + 'b" where
  "then_do r f = (case r of Inl e \<Rightarrow> Inl e | Inr v \<Rightarrow> f v)"

text \<open>Truth value of a Python object (\<open>if x:\<close>, \<open>x or y\<close>, \<open>not x\<close>).\<close>

fun truthy :: "json \<Rightarrow> bool" where
  "truthy JNull = False"
| "truthy (JBool b) = b"
| "truthy (JNum n) = (n \<noteq> 0)"
| "truthy (JStr s) = (s \<noteq> [])"
| "truthy (JList xs) = (xs \<noteq> [])"
| "truthy (JObj kvs) = (kvs \<noteq> [])"

text \<open>\<open>len(x)\<close>: a \<open>TypeError\<close> on \<open>None\<close>, booleans and numbers.\<close>

fun py_len :: "json \<Rightarrow> exn + nat" where
  "py_len (JStr s) = Inr (length s)"
| "py_len (JList xs) = Inr (length xs)"
| "py_len (JObj kvs) = Inr (length kvs)"
| "py_len _ = Inl TypeError"

text \<open>\<open>for r in x\<close>: the elements of a list, the keys of a dict, the characters of a str.\<close>

fun py_iter :: "json \<Rightarrow> exn + json list" where
  "py_iter (JList xs) = Inr xs"
| "py_iter (JObj kvs) = Inr (map (\<lambda>kv. JStr (fst kv)) kvs)"
| "py_iter (JStr s) = Inr (map (\<lambda>c. JStr [c]) s)"
| "py_iter _ = Inl TypeError"

text \<open>\<open>sub in s\<close> on two strings: \<open>sub\<close> occurs in \<open>s\<close> as a contiguous piece.\<close>

fun substring :: "string \<Rightarrow> string \<Rightarrow> bool" where
  "substring sub [] = (sub = [])"
| "substring sub (c # cs) = (take (length sub) (c # cs) = sub \<or> substring sub cs)"

text \<open>
  \<open>k in x\<close> for a string \<open>k\<close>: key membership on a dict, element membership on a
  list, the substring test on a str, a \<open>TypeError\<close> otherwise.
\<close>

fun py_in :: "string \<Rightarrow> json \<Rightarrow> exn + bool" where
  "py_in k (JObj kvs) = Inr (k \<in> set (map fst kvs))"
| "py_in k (JList xs) = Inr (JStr k \<in> set xs)"
| "py_in k (JStr s) = Inr (substring k s)"
| "py_in k _ = Inl TypeError"

text \<open>\<open>x.get(k, d)\<close>: only a dict has the method.\<close>

fun py_get :: "string \<Rightarrow> json \<Rightarrow> json \<Rightarrow> exn + json" where
  "py_get k d (JObj kvs) = Inr (case map_of kvs k of Some v \<Rightarrow> v | None \<Rightarrow> d)"
| "py_get k d _ = Inl AttributeError"

text \<open>
  \<open>x[k]\<close> for a string \<open>k\<close>: the member of a dict, a \<open>KeyError\<close> when it has
  none; a \<open>TypeError\<close> on every other value (a list or a str wants an integer).
\<close>

fun py_index :: "json \<Rightarrow> string \<Rightarrow> exn + json" where
  "py_index (JObj kvs) k = (case map_of kvs k of Some v \<Rightarrow> Inr v | None \<Rightarrow> Inl KeyError)"
| "py_index _ k = Inl TypeError"

text \<open>\<open>sep.join(items)\<close>: every item has to be a str.\<close>

fun py_join :: "string \<Rightarrow> json list \<Rightarrow> exn + string" where
  "py_join sep [] = Inr []"
| "py_join sep [JStr s] = Inr s"
| "py_join sep (JStr s # x # xs) = then_do (py_join sep (x # xs)) (\<lambda>rest. Inr (s @ sep @ rest))"
| "py_join sep _ = Inl TypeError"

text \<open>An f-string field \<open>{x}\<close> where \<open>x\<close> is a str or \<open>None\<close>.\<close>

definition fmt :: "string option \<Rightarrow> string" where
  "fmt x = (case x of None \<Rightarrow> ''None'' | Some s \<Rightarrow> s)"

text \<open>\<open>os.getenv(name, default)\<close> on the value of the variable, \<open>None\<close> when unset.\<close>

definition getenv_default :: "string option \<Rightarrow> string \<Rightarrow> string" where
  "getenv_default v d = (case v of None \<Rightarrow> d | Some s \<Rightarrow> s)"

text \<open>\<open>str(n)\<close> for a natural number.\<close>

fun str_nat :: "nat \<Rightarrow> string" where
  "str_nat n =
     (if n < 10 then [''0123456789'' ! n]
      else str_nat (n div 10) @ [''0123456789'' ! (n mod 10)])"

declare str_nat.simps [simp del]

section \<open>Localized texts\<close>

definition greeting_hi :: string where
  "greeting_hi =
    [CHR 0xE0, CHR 0xA4, CHR 0xA8, CHR 0xE0, CHR 0xA4, CHR 0xAE, CHR 0xE0, CHR 0xA4, CHR 0xB8,
     CHR 0xE0, CHR 0xA5, CHR 0x8D, CHR 0xE0, CHR 0xA4, CHR 0xA4, CHR 0xE0, CHR 0xA5, CHR 0x87,
     CHR 0x21, CHR 0x20, CHR 0xE0, CHR 0xA4, CHR 0xAE, CHR 0xE0, CHR 0xA5, CHR 0x88, CHR 0xE0,
     CHR 0xA4, CHR 0x82, CHR 0x20, CHR 0xE0, CHR 0xA4, CHR 0x86, CHR 0xE0, CHR 0xA4, CHR 0xAA,
     CHR 0xE0, CHR 0xA4, CHR 0x95, CHR 0xE0, CHR 0xA5, CHR 0x80, CHR 0x20, CHR 0xE0, CHR 0xA4,
     CHR 0xB8, CHR 0xE0, CHR 0xA4, CHR 0xB9, CHR 0xE0, CHR 0xA4, CHR 0xBE, CHR 0xE0, CHR 0xA4,
     CHR 0xAF, CHR 0xE0, CHR 0xA4, CHR 0xA4, CHR 0xE0, CHR 0xA4, CHR 0xBE, CHR 0x20, CHR 0xE0,
     CHR 0xA4, CHR 0x95, CHR 0xE0, CHR 0xA5, CHR 0x87, CHR 0x20, CHR 0xE0, CHR 0xA4, CHR 0xB2,
     CHR 0xE0, CHR 0xA4, CHR 0xBF, CHR 0xE0, CHR 0xA4, CHR 0x8F, CHR 0x20, CHR 0xE0, CHR 0xA4,
     CHR 0xAF, CHR 0xE0, CHR 0xA4, CHR 0xB9, CHR 0xE0, CHR 0xA4, CHR 0xBE, CHR 0xE0, CHR 0xA4,
     CHR 0x81, CHR 0x20, CHR 0xE0, CHR 0xA4, CHR 0xB9, CHR 0xE0, CHR 0xA5, CHR 0x82, CHR 0xE0,
     CHR 0xA4, CHR 0x81, CHR 0xE0, CHR 0xA5, CHR 0xA4, CHR 0x20, CHR 0xE0, CHR 0xA4, CHR 0xAE,
     CHR 0xE0, CHR 0xA5, CHR 0x88, CHR 0xE0, CHR 0xA4, CHR 0x82, CHR 0x20, CHR 0xE0, CHR 0xA4,
     CHR 0x86, CHR 0xE0, CHR 0xA4, CHR 0xAA, CHR 0xE0, CHR 0xA4, CHR 0x95, CHR 0xE0, CHR 0xA5,
     CHR 0x80, CHR 0x20, CHR 0xE0, CHR 0xA4, CHR 0x95, CHR 0xE0, CHR 0xA5, CHR 0x88, CHR 0xE0,
     CHR 0xA4, CHR 0xB8, CHR 0xE0, CHR 0xA5, CHR 0x87, CHR 0x20, CHR 0xE0, CHR 0xA4, CHR 0xAE,
     CHR 0xE0, CHR 0xA4, CHR 0xA6, CHR 0xE0, CHR 0xA4, CHR 0xA6, CHR 0x20, CHR 0xE0, CHR 0xA4,
     CHR 0x95, CHR 0xE0, CHR 0xA4, CHR 0xB0, CHR 0x20, CHR 0xE0, CHR 0xA4, CHR 0xB8, CHR 0xE0,
     CHR 0xA4, CHR 0x95, CHR 0xE0, CHR 0xA4, CHR 0xA4, CHR 0xE0, CHR 0xA4, CHR 0xBE, CHR 0x20,
     CHR 0xE0, CHR 0xA4, CHR 0xB9, CHR 0xE0, CHR 0xA5, CHR 0x82, CHR 0xE0, CHR 0xA4, CHR 0x81,
     CHR 0x3F]"

definition greeting_te :: string where
  "greeting_te =
    [CHR 0xE0, CHR 0xB0, CHR 0xA8, CHR 0xE0, CHR 0xB0, CHR 0xAE, CHR 0xE0, CHR 0xB0, CHR 0xB8,
     CHR 0xE0, CHR 0xB1, CHR 0x8D, CHR 0xE0, CHR 0xB0, CHR 0x95, CHR 0xE0, CHR 0xB0, CHR 0xBE,
     CHR 0xE0, CHR 0xB0, CHR 0xB0, CHR 0xE0, CHR 0xB0, CHR 0x82, CHR 0x21, CHR 0x20, CHR 0xE0,
     CHR 0xB0, CHR 0xA8, CHR 0xE0, CHR 0xB1, CHR 0x87, CHR 0xE0, CHR 0xB0, CHR 0xA8, CHR 0xE0,
     CHR 0xB1, CHR 0x81, CHR 0x20, CHR 0xE0, CHR 0xB0, CHR 0xAE, CHR 0xE0, CHR 0xB1, CHR 0x80,
     CHR 0xE0, CHR 0xB0, CHR 0x95, CHR 0xE0, CHR 0xB1, CHR 0x81, CHR 0x20, CHR 0xE0, CHR 0xB0,
     CHR 0xB8, CHR 0xE0, CHR 0xB0, CHR 0xB9, CHR 0xE0, CHR 0xB0, CHR 0xBE, CHR 0xE0, CHR 0xB0,
     CHR 0xAF, CHR 0xE0, CHR 0xB0, CHR 0x82, CHR 0x20, CHR 0xE0, CHR 0xB0, CHR 0x9A, CHR 0xE0,
     CHR 0xB1, CHR 0x87, CHR 0xE0, CHR 0xB0, CHR 0xAF, CHR 0xE0, CHR 0xB0, CHR 0xA1, CHR 0xE0,
     CHR 0xB0, CHR 0xBE, CHR 0xE0, CHR 0xB0, CHR 0xA8, CHR 0xE0, CHR 0xB0, CHR 0xBF, CHR 0xE0,
     CHR 0xB0, CHR 0x95, CHR 0xE0, CHR 0xB0, CHR 0xBF, CHR 0x20, CHR 0xE0, CHR 0xB0, CHR 0x87,
     CHR 0xE0, CHR 0xB0, CHR 0x95, CHR 0xE0, CHR 0xB1, CHR 0x8D, CHR 0xE0, CHR 0xB0, CHR 0x95,
     CHR 0xE0, CHR 0xB0, CHR 0xA1, CHR 0x20, CHR 0xE0, CHR 0xB0, CHR 0x89, CHR 0xE0, CHR 0xB0,
     CHR 0xA8, CHR 0xE0, CHR 0xB1, CHR 0x8D, CHR 0xE0, CHR 0xB0, CHR 0xA8, CHR 0xE0, CHR 0xB0,
     CHR 0xBE, CHR 0xE0, CHR 0xB0, CHR 0xA8, CHR 0xE0, CHR 0xB1, CHR 0x81, CHR 0x2E, CHR 0x20,
     CHR 0xE0, CHR 0xB0, CHR 0xA8, CHR 0xE0, CHR 0xB1, CHR 0x87, CHR 0xE0, CHR 0xB0, CHR 0xA8,
     CHR 0xE0, CHR 0xB1, CHR 0x81, CHR 0x20, CHR 0xE0, CHR 0xB0, CHR 0xAE, CHR 0xE0, CHR 0xB1,
     CHR 0x80, CHR 0xE0, CHR 0xB0, CHR 0x95, CHR 0xE0, CHR 0xB1, CHR 0x81, CHR 0x20, CHR 0xE0,
     CHR 0xB0, CHR 0x8E, CHR 0xE0, CHR 0xB0, CHR 0xB2, CHR 0xE0, CHR 0xB0, CHR 0xBE, CHR 0x20,
     CHR 0xE0, CHR 0xB0, CHR 0xB8, CHR 0xE0, CHR 0xB0, CHR 0xB9, CHR 0xE0, CHR 0xB0, CHR 0xBE,
     CHR 0xE0, CHR 0xB0, CHR 0xAF, CHR 0xE0, CHR 0xB0, CHR 0x82, CHR 0x20, CHR 0xE0, CHR 0xB0,
     CHR 0x9A, CHR 0xE0, CHR 0xB1, CHR 0x87, CHR 0xE0, CHR 0xB0, CHR 0xAF, CHR 0xE0, CHR 0xB0,
     CHR 0x97, CHR 0xE0, CHR 0xB0, CHR 0xB2, CHR 0xE0, CHR 0xB0, CHR 0xA8, CHR 0xE0, CHR 0xB1,
     CHR 0x81, CHR 0x3F]"

definition greeting_en :: string where
  "greeting_en = ''Hello! I am here to assist you. How may I help you today?''"

definition greeting_ur :: string where
  "greeting_ur =
    [CHR 0xD8, CHR 0xA7, CHR 0xD9, CHR 0x84, CHR 0xD8, CHR 0xB3, CHR 0xD9, CHR 0x84, CHR 0xD8,
     CHR 0xA7, CHR 0xD9, CHR 0x85, CHR 0x20, CHR 0xD8, CHR 0xB9, CHR 0xD9, CHR 0x84, CHR 0xDB,
     CHR 0x8C, CHR 0xDA, CHR 0xA9, CHR 0xD9, CHR 0x85, CHR 0x21, CHR 0x20, CHR 0xD9, CHR 0x85,
     CHR 0xDB, CHR 0x8C, CHR 0xDA, CHR 0xBA, CHR 0x20, CHR 0xD8, CHR 0xA2, CHR 0xD9, CHR 0xBE,
     CHR 0x20, CHR 0xDA, CHR 0xA9, CHR 0xDB, CHR 0x8C, CHR 0x20, CHR 0xD9, CHR 0x85, CHR 0xD8,
     CHR 0xAF, CHR 0xD8, CHR 0xAF, CHR 0x20, CHR 0xDA, CHR 0xA9, CHR 0xDB, CHR 0x92, CHR 0x20,
     CHR 0xD9, CHR 0x84, CHR 0xDB, CHR 0x8C, CHR 0xDB, CHR 0x92, CHR 0x20, CHR 0xDB, CHR 0x8C,
     CHR 0xDB, CHR 0x81, CHR 0xD8, CHR 0xA7, CHR 0xDA, CHR 0xBA, CHR 0x20, CHR 0xD9, CHR 0x85,
     CHR 0xD9, CHR 0x88, CHR 0xD8, CHR 0xAC, CHR 0xD9, CHR 0x88, CHR 0xD8, CHR 0xAF, CHR 0x20,
     CHR 0xDB, CHR 0x81, CHR 0xD9, CHR 0x88, CHR 0xDA, CHR 0xBA, CHR 0xDB, CHR 0x94, CHR 0x20,
     CHR 0xD9, CHR 0x85, CHR 0xDB, CHR 0x8C, CHR 0xDA, CHR 0xBA, CHR 0x20, CHR 0xD8, CHR 0xA2,
     CHR 0xD9, CHR 0xBE, CHR 0x20, CHR 0xDA, CHR 0xA9, CHR 0xDB, CHR 0x8C, CHR 0x20, CHR 0xDA,
     CHR 0xA9, CHR 0xDB, CHR 0x8C, CHR 0xD8, CHR 0xB3, CHR 0xDB, CHR 0x92, CHR 0x20, CHR 0xD9,
     CHR 0x85, CHR 0xD8, CHR 0xAF, CHR 0xD8, CHR 0xAF, CHR 0x20, CHR 0xDA, CHR 0xA9, CHR 0xD8,
     CHR 0xB1, CHR 0x20, CHR 0xD8, CHR 0xB3, CHR 0xDA, CHR 0xA9, CHR 0xD8, CHR 0xAA, CHR 0xD8,
     CHR 0xA7, CHR 0x20, CHR 0xDB, CHR 0x81, CHR 0xD9, CHR 0x88, CHR 0xDA, CHR 0xBA, CHR 0xD8,
     CHR 0x9F]"

definition fallback_message_hi :: string where
  "fallback_message_hi =
    [CHR 0xE0, CHR 0xA4, CHR 0x95, CHR 0xE0, CHR 0xA5, CHR 0x8D, CHR 0xE0, CHR 0xA4, CHR 0xB7,
     CHR 0xE0, CHR 0xA4, CHR 0xAE, CHR 0xE0, CHR 0xA4, CHR 0xBE, CHR 0x20, CHR 0xE0, CHR 0xA4,
     CHR 0x95, CHR 0xE0, CHR 0xA4, CHR 0xB0, CHR 0xE0, CHR 0xA5, CHR 0x87, CHR 0xE0, CHR 0xA4,
     CHR 0x82, CHR 0x2C, CHR 0x20, CHR 0xE0, CHR 0xA4, CHR 0xAE, CHR 0xE0, CHR 0xA5, CHR 0x88,
     CHR 0xE0, CHR 0xA4, CHR 0x82, CHR 0x20, CHR 0xE0, CHR 0xA4, CHR 0x86, CHR 0xE0, CHR 0xA4,
     CHR 0xAA, CHR 0xE0, CHR 0xA4, CHR 0x95, CHR 0xE0, CHR 0xA5, CHR 0x80, CHR 0x20, CHR 0xE0,
     CHR 0xA4, CHR 0xAC, CHR 0xE0, CHR 0xA4, CHR 0xBE, CHR 0xE0, CHR 0xA4, CHR 0xA4, CHR 0x20,
     CHR 0xE0, CHR 0xA4, CHR 0xB8, CHR 0xE0, CHR 0xA4, CHR 0xAE, CHR 0xE0, CHR 0xA4, CHR 0x9D,
     CHR 0x20, CHR 0xE0, CHR 0xA4, CHR 0xA8, CHR 0xE0, CHR 0xA4, CHR 0xB9, CHR 0xE0, CHR 0xA5,
     CHR 0x80, CHR 0xE0, CHR 0xA4, CHR 0x82, CHR 0x20, CHR 0xE0, CHR 0xA4, CHR 0xAA, CHR 0xE0,
     CHR 0xA4, CHR 0xBE, CHR 0xE0, CHR 0xA4, CHR 0xAF, CHR 0xE0, CHR 0xA4, CHR 0xBE, CHR 0xE0,
     CHR 0xA5, CHR 0xA4, CHR 0x20, CHR 0xE0, CHR 0xA4, CHR 0x95, CHR 0xE0, CHR 0xA5, CHR 0x8D,
     CHR 0xE0, CHR 0xA4, CHR 0xAF, CHR 0xE0, CHR 0xA4, CHR 0xBE, CHR 0x20, CHR 0xE0, CHR 0xA4,
     CHR 0x86, CHR 0xE0, CHR 0xA4, CHR 0xAA, CHR 0x20, CHR 0xE0, CHR 0xA4, CHR 0x95, CHR 0xE0,
     CHR 0xA5, CHR 0x83, CHR 0xE0, CHR 0xA4, CHR 0xAA, CHR 0xE0, CHR 0xA4, CHR 0xAF, CHR 0xE0,
     CHR 0xA4, CHR 0xBE, CHR 0x20, CHR 0xE0, CHR 0xA4, CHR 0xA6, CHR 0xE0, CHR 0xA5, CHR 0x8B,
     CHR 0xE0, CHR 0xA4, CHR 0xB9, CHR 0xE0, CHR 0xA4, CHR 0xB0, CHR 0xE0, CHR 0xA4, CHR 0xBE,
     CHR 0x20, CHR 0xE0, CHR 0xA4, CHR 0xB8, CHR 0xE0, CHR 0xA4, CHR 0x95, CHR 0xE0, CHR 0xA4,
     CHR 0xA4, CHR 0xE0, CHR 0xA5, CHR 0x87, CHR 0x20, CHR 0xE0, CHR 0xA4, CHR 0xB9, CHR 0xE0,
     CHR 0xA5, CHR 0x88, CHR 0xE0, CHR 0xA4, CHR 0x82, CHR 0x3F]"

definition fallback_message_te :: string where
  "fallback_message_te =
    [CHR 0xE0, CHR 0xB0, CHR 0x95, CHR 0xE0, CHR 0xB1, CHR 0x8D, CHR 0xE0, CHR 0xB0, CHR 0xB7,
     CHR 0xE0, CHR 0xB0, CHR 0xAE, CHR 0xE0, CHR 0xB0, CHR 0xBF, CHR 0xE0, CHR 0xB0, CHR 0x82,
     CHR 0xE0, CHR 0xB0, CHR 0x9A, CHR 0xE0, CHR 0xB0, CHR 0x82, CHR 0xE0, CHR 0xB0, CHR 0xA1,
     CHR 0xE0, CHR 0xB0, CHR 0xBF, CHR 0x2C, CHR 0x20, CHR 0xE0, CHR 0xB0, CHR 0xA8, CHR 0xE0,
     CHR 0xB1, CHR 0x87, CHR 0xE0, CHR 0xB0, CHR 0xA8, CHR 0xE0, CHR 0xB1, CHR 0x81, CHR 0x20,
     CHR 0xE0, CHR 0xB0, CHR 0xAE, CHR 0xE0, CHR 0xB1, CHR 0x80, CHR 0x20, CHR 0xE0, CHR 0xB0,
     CHR 0xAE, CHR 0xE0, CHR 0xB0, CHR 0xBE, CHR 0xE0, CHR 0xB0, CHR 0x9F, CHR 0x20, CHR 0xE0,
     CHR 0xB0, CHR 0x85, CHR 0xE0, CHR 0xB0, CHR 0xB0, CHR 0xE0, CHR 0xB1, CHR 0x8D, CHR 0xE0,
     CHR 0xB0, CHR 0xA5, CHR 0xE0, CHR 0xB0, CHR 0x82, CHR 0x20, CHR 0xE0, CHR 0xB0, CHR 0x9A,
     CHR 0xE0, CHR 0xB1, CHR 0x87, CHR 0xE0, CHR 0xB0, CHR 0xB8, CHR 0xE0, CHR 0xB1, CHR 0x81,
     CHR 0xE0, CHR 0xB0, CHR 0x95, CHR 0xE0, CHR 0xB1, CHR 0x8B, CHR 0xE0, CHR 0xB0, CHR 0xB2,
     CHR 0xE0, CHR 0xB1, CHR 0x87, CHR 0xE0, CHR 0xB0, CHR 0x95, CHR 0xE0, CHR 0xB0, CHR 0xAA,
     CHR 0xE0, CHR 0xB1, CHR 0x8B, CHR 0xE0, CHR 0xB0, CHR 0xAF, CHR 0xE0, CHR 0xB0, CHR 0xBE,
     CHR 0xE0, CHR 0xB0, CHR 0xA8, CHR 0xE0, CHR 0xB1, CHR 0x81, CHR 0x2E, CHR 0x20, CHR 0xE0,
     CHR 0xB0, CHR 0xA6, CHR 0xE0, CHR 0xB0, CHR 0xAF, CHR 0xE0, CHR 0xB0, CHR 0x9A, CHR 0xE0,
     CHR 0xB1, CHR 0x87, CHR 0xE0, CHR 0xB0, CHR 0xB8, CHR 0xE0, CHR 0xB0, CHR 0xBF, CHR 0x20,
     CHR 0xE0, CHR 0xB0, CHR 0xAE, CHR 0xE0, CHR 0xB0, CHR 0xB3, CHR 0xE0, CHR 0xB1, CHR 0x8D,
     CHR 0xE0, CHR 0xB0, CHR 0xB2, CHR 0xE0, CHR 0xB1, CHR 0x80, CHR 0x20, CHR 0xE0, CHR 0xB0,
     CHR 0x9A, CHR 0xE0, CHR 0xB1, CHR 0x86, CHR 0xE0, CHR 0xB0, CHR 0xAA, CHR 0xE0, CHR 0xB1,
     CHR 0x8D, CHR 0xE0, CHR 0xB0, CHR 0xAA, CHR 0xE0, CHR 0xB0, CHR 0x97, CHR 0xE0, CHR 0xB0,
     CHR 0xB2, CHR 0xE0, CHR 0xB0, CHR 0xB0, CHR 0xE0, CHR 0xB0, CHR 0xBE, CHR 0x3F]"

definition fallback_message_en :: string where
  "fallback_message_en = ''Sorry, I did not understand that. Could you please repeat?''"

definition fallback_message_ur :: string where
  "fallback_message_ur =
    [CHR 0xD9, CHR 0x85, CHR 0xD8, CHR 0xB9, CHR 0xD8, CHR 0xB0, CHR 0xD8, CHR 0xB1, CHR 0xD8,
     CHR 0xAA, CHR 0xD8, CHR 0x8C, CHR 0x20, CHR 0xD9, CHR 0x85, CHR 0xDB, CHR 0x8C, CHR 0xDA,
     CHR 0xBA, CHR 0x20, CHR 0xD8, CHR 0xA2, CHR 0xD9, CHR 0xBE, CHR 0x20, CHR 0xDA, CHR 0xA9,
     CHR 0xDB, CHR 0x8C, CHR 0x20, CHR 0xD8, CHR 0xA8, CHR 0xD8, CHR 0xA7, CHR 0xD8, CHR 0xAA,
     CHR 0x20, CHR 0xD8, CHR 0xB3, CHR 0xD9, CHR 0x85, CHR 0xD8, CHR 0xAC, CHR 0xDA, CHR 0xBE,
     CHR 0x20, CHR 0xD9, CHR 0x86, CHR 0xDB, CHR 0x81, CHR 0xDB, CHR 0x8C, CHR 0xDA, CHR 0xBA,
     CHR 0x20, CHR 0xD9, CHR 0xBE, CHR 0xD8, CHR 0xA7, CHR 0xDB, CHR 0x8C, CHR 0xD8, CHR 0xA7,
     CHR 0xDB, CHR 0x94, CHR 0x20, CHR 0xDA, CHR 0xA9, CHR 0xDB, CHR 0x8C, CHR 0xD8, CHR 0xA7,
     CHR 0x20, CHR 0xD8, CHR 0xA2, CHR 0xD9, CHR 0xBE, CHR 0x20, CHR 0xD8, CHR 0xA8, CHR 0xD8,
     CHR 0xB1, CHR 0xD8, CHR 0xA7, CHR 0xDB, CHR 0x81, CHR 0x20, CHR 0xDA, CHR 0xA9, CHR 0xD8,
     CHR 0xB1, CHR 0xD9, CHR 0x85, CHR 0x20, CHR 0xD8, CHR 0xAF, CHR 0xDB, CHR 0x81, CHR 0xD8,
     CHR 0xB1, CHR 0xD8, CHR 0xA7, CHR 0x20, CHR 0xD8, CHR 0xB3, CHR 0xDA, CHR 0xA9, CHR 0xD8,
     CHR 0xAA, CHR 0xDB, CHR 0x92, CHR 0x20, CHR 0xDB, CHR 0x81, CHR 0xDB, CHR 0x8C, CHR 0xDA,
     CHR 0xBA, CHR 0xD8, CHR 0x9F]"

definition error_message_hi :: string where
  "error_message_hi =
    [CHR 0xE0, CHR 0xA4, CHR 0x95, CHR 0xE0, CHR 0xA5, CHR 0x8D, CHR 0xE0, CHR 0xA4, CHR 0xB7,
     CHR 0xE0, CHR 0xA4, CHR 0xAE, CHR 0xE0, CHR 0xA4, CHR 0xBE, CHR 0x20, CHR 0xE0, CHR 0xA4,
     CHR 0x95, CHR 0xE0, CHR 0xA4, CHR 0xB0, CHR 0xE0, CHR 0xA5, CHR 0x87, CHR 0xE0, CHR 0xA4,
     CHR 0x82, CHR 0x2C, CHR 0x20, CHR 0xE0, CHR 0xA4, CHR 0x95, CHR 0xE0, CHR 0xA5, CHR 0x81,
     CHR 0xE0, CHR 0xA4, CHR 0x9B, CHR 0x20, CHR 0xE0, CHR 0xA4, CHR 0x97, CHR 0xE0, CHR 0xA4,
     CHR 0xB2, CHR 0xE0, CHR 0xA4, CHR 0xA4, CHR 0x20, CHR 0xE0, CHR 0xA4, CHR 0xB9, CHR 0xE0,
     CHR 0xA5, CHR 0x8B, CHR 0x20, CHR 0xE0, CHR 0xA4, CHR 0x97, CHR 0xE0, CHR 0xA4, CHR 0xAF,
     CHR 0xE0, CHR 0xA4, CHR 0xBE, CHR 0xE0, CHR 0xA5, CHR 0xA4, CHR 0x20, CHR 0xE0, CHR 0xA4,
     CHR 0x95, CHR 0xE0, CHR 0xA5, CHR 0x83, CHR 0xE0, CHR 0xA4, CHR 0xAA, CHR 0xE0, CHR 0xA4,
     CHR 0xAF, CHR 0xE0, CHR 0xA4, CHR 0xBE, CHR 0x20, CHR 0xE0, CHR 0xA4, CHR 0xAC, CHR 0xE0,
     CHR 0xA4, CHR 0xBE, CHR 0xE0, CHR 0xA4, CHR 0xA6, CHR 0x20, CHR 0xE0, CHR 0xA4, CHR 0xAE,
     CHR 0xE0, CHR 0xA5, CHR 0x87, CHR 0xE0, CHR 0xA4, CHR 0x82, CHR 0x20, CHR 0xE0, CHR 0xA4,
     CHR 0xAA, CHR 0xE0, CHR 0xA5, CHR 0x81, CHR 0xE0, CHR 0xA4, CHR 0xA8, CHR 0xE0, CHR 0xA4,
     CHR 0x83, CHR 0x20, CHR 0xE0, CHR 0xA4, CHR 0xAA, CHR 0xE0, CHR 0xA5, CHR 0x8D, CHR 0xE0,
     CHR 0xA4, CHR 0xB0, CHR 0xE0, CHR 0xA4, CHR 0xAF, CHR 0xE0, CHR 0xA4, CHR 0xBE, CHR 0xE0,
     CHR 0xA4, CHR 0xB8, CHR 0x20, CHR 0xE0, CHR 0xA4, CHR 0x95, CHR 0xE0, CHR 0xA4, CHR 0xB0,
     CHR 0xE0, CHR 0xA5, CHR 0x87, CHR 0xE0, CHR 0xA4, CHR 0x82, CHR 0xE0, CHR 0xA5, CHR 0xA4]"

definition error_message_te :: string where
  "error_message_te =
    [CHR 0xE0, CHR 0xB0, CHR 0x95, CHR 0xE0, CHR 0xB1, CHR 0x8D, CHR 0xE0, CHR 0xB0, CHR 0xB7,
     CHR 0xE0, CHR 0xB0, CHR 0xAE, CHR 0xE0, CHR 0xB0, CHR 0xBF, CHR 0xE0, CHR 0xB0, CHR 0x82,
     CHR 0xE0, CHR 0xB0, CHR 0x9A, CHR 0xE0, CHR 0xB0, CHR 0x82, CHR 0xE0, CHR 0xB0, CHR 0xA1,
     CHR 0xE0, CHR 0xB0, CHR 0xBF, CHR 0x2C, CHR 0x20, CHR 0xE0, CHR 0xB0, CHR 0x8F, CHR 0xE0,
     CHR 0xB0, CHR 0xA6, CHR 0xE0, CHR 0xB1, CHR 0x8B, CHR 0x20, CHR 0xE0, CHR 0xB0, CHR 0xA4,
     CHR 0xE0, CHR 0xB0, CHR 0xAA, CHR 0xE0, CHR 0xB1, CHR 0x8D, CHR 0xE0, CHR 0xB0, CHR 0xAA,
     CHR 0xE0, CHR 0xB1, CHR 0x81, CHR 0x20, CHR 0xE0, CHR 0xB0, CHR 0x9C, CHR 0xE0, CHR 0xB0,
     CHR 0xB0, CHR 0xE0, CHR 0xB0, CHR 0xBF, CHR 0xE0, CHR 0xB0, CHR 0x97, CHR 0xE0, CHR 0xB0,
     CHR 0xBF, CHR 0xE0, CHR 0xB0, CHR 0x82, CHR 0xE0, CHR 0xB0, CHR 0xA6, CHR 0xE0, CHR 0xB0,
     CHR 0xBF, CHR 0x2E, CHR 0x20, CHR 0xE0, CHR 0xB0, CHR 0xA6, CHR 0xE0, CHR 0xB0, CHR 0xAF,
     CHR 0xE0, CHR 0xB0, CHR 0x9A, CHR 0xE0, CHR 0xB1, CHR 0x87, CHR 0xE0, CHR 0xB0, CHR 0xB8,
     CHR 0xE0, CHR 0xB0, CHR 0xBF, CHR 0x20, CHR 0xE0, CHR 0xB0, CHR 0xA4, CHR 0xE0, CHR 0xB0,
     CHR 0xB0, CHR 0xE0, CHR 0xB1, CHR 0x8D, CHR 0xE0, CHR 0xB0, CHR 0xB5, CHR 0xE0, CHR 0xB0,
     CHR 0xBE, CHR 0xE0, CHR 0xB0, CHR 0xA4, CHR 0x20, CHR 0xE0, CHR 0xB0, CHR 0xAE, CHR 0xE0,
     CHR 0xB0, CHR 0xB3, CHR 0xE0, CHR 0xB1, CHR 0x8D, CHR 0xE0, CHR 0xB0, CHR 0xB2, CHR 0xE0,
     CHR 0xB1, CHR 0x80, CHR 0x20, CHR 0xE0, CHR 0xB0, CHR 0xAA, CHR 0xE0, CHR 0xB1, CHR 0x8D,
     CHR 0xE0, CHR 0xB0, CHR 0xB0, CHR 0xE0, CHR 0xB0, CHR 0xAF, CHR 0xE0, CHR 0xB0, CHR 0xA4,
     CHR 0xE0, CHR 0xB1, CHR 0x8D, CHR 0xE0, CHR 0xB0, CHR 0xA8, CHR 0xE0, CHR 0xB0, CHR 0xBF,
     CHR 0xE0, CHR 0xB0, CHR 0x82, CHR 0xE0, CHR 0xB0, CHR 0x9A, CHR 0xE0, CHR 0xB0, CHR 0x82,
     CHR 0xE0, CHR 0xB0, CHR 0xA1, CHR 0xE0, CHR 0xB0, CHR 0xBF, CHR 0x2E]"

definition error_message_en :: string where
  "error_message_en = ''Sorry, something went wrong. Please try again later.''"

definition error_message_ur :: string where
  "error_message_ur =
    [CHR 0xD9, CHR 0x85, CHR 0xD8, CHR 0xB9, CHR 0xD8, CHR 0xB0, CHR 0xD8, CHR 0xB1, CHR 0xD8,
     CHR 0xAA, CHR 0xD8, CHR 0x8C, CHR 0x20, CHR 0xDA, CHR 0xA9, CHR 0xDA, CHR 0x86, CHR 0xDA,
     CHR 0xBE, CHR 0x20, CHR 0xD8, CHR 0xBA, CHR 0xD9, CHR 0x84, CHR 0xD8, CHR 0xB7, CHR 0x20,
     CHR 0xDB, CHR 0x81, CHR 0xD9, CHR 0x88, CHR 0x20, CHR 0xDA, CHR 0xAF, CHR 0xDB, CHR 0x8C,
     CHR 0xD8, CHR 0xA7, CHR 0xDB, CHR 0x94, CHR 0x20, CHR 0xD8, CHR 0xA8, CHR 0xD8, CHR 0xB1,
     CHR 0xD8, CHR 0xA7, CHR 0xDB, CHR 0x81, CHR 0x20, CHR 0xDA, CHR 0xA9, CHR 0xD8, CHR 0xB1,
     CHR 0xD9, CHR 0x85, CHR 0x20, CHR 0xD8, CHR 0xA8, CHR 0xD8, CHR 0xB9, CHR 0xD8, CHR 0xAF,
     CHR 0x20, CHR 0xD9, CHR 0x85, CHR 0xDB, CHR 0x8C, CHR 0xDA, CHR 0xBA, CHR 0x20, CHR 0xD8,
     CHR 0xAF, CHR 0xD9, CHR 0x88, CHR 0xD8, CHR 0xA8, CHR 0xD8, CHR 0xA7, CHR 0xD8, CHR 0xB1,
     CHR 0xDB, CHR 0x81, CHR 0x20, CHR 0xDA, CHR 0xA9, CHR 0xD9, CHR 0x88, CHR 0xD8, CHR 0xB4,
     CHR 0xD8, CHR 0xB4, CHR 0x20, CHR 0xDA, CHR 0xA9, CHR 0xD8, CHR 0xB1, CHR 0xDB, CHR 0x8C,
     CHR 0xDA, CHR 0xBA, CHR 0xDB, CHR 0x94]"

definition hints_hi :: string where
  "hints_hi =
    [CHR 0xE0, CHR 0xA4, CHR 0xB9, CHR 0xE0, CHR 0xA4, CHR 0xBE, CHR 0xE0, CHR 0xA4, CHR 0x81,
     CHR 0x2C, CHR 0x20, CHR 0xE0, CHR 0xA4, CHR 0xA8, CHR 0xE0, CHR 0xA4, CHR 0xB9, CHR 0xE0,
     CHR 0xA5, CHR 0x80, CHR 0xE0, CHR 0xA4, CHR 0x82, CHR 0x2C, CHR 0x20, CHR 0xE0, CHR 0xA4,
     CHR 0xA0, CHR 0xE0, CHR 0xA5, CHR 0x80, CHR 0xE0, CHR 0xA4, CHR 0x95, CHR 0x20, CHR 0xE0,
     CHR 0xA4, CHR 0xB9, CHR 0xE0, CHR 0xA5, CHR 0x88, CHR 0x2C, CHR 0x20, CHR 0xE0, CHR 0xA4,
     CHR 0xA7, CHR 0xE0, CHR 0xA4, CHR 0xA8, CHR 0xE0, CHR 0xA5, CHR 0x8D, CHR 0xE0, CHR 0xA4,
     CHR 0xAF, CHR 0xE0, CHR 0xA4, CHR 0xB5, CHR 0xE0, CHR 0xA4, CHR 0xBE, CHR 0xE0, CHR 0xA4,
     CHR 0xA6]"

definition hints_te :: string where
  "hints_te =
    [CHR 0xE0, CHR 0xB0, CHR 0x85, CHR 0xE0, CHR 0xB0, CHR 0xB5, CHR 0xE0, CHR 0xB1, CHR 0x81,
     CHR 0xE0, CHR 0xB0, CHR 0xA8, CHR 0xE0, CHR 0xB1, CHR 0x81, CHR 0x2C, CHR 0x20, CHR 0xE0,
     CHR 0xB0, CHR 0x95, CHR 0xE0, CHR 0xB0, CHR 0xBE, CHR 0xE0, CHR 0xB0, CHR 0xA6, CHR 0xE0,
     CHR 0xB1, CHR 0x81, CHR 0x2C, CHR 0x20, CHR 0xE0, CHR 0xB0, CHR 0xB8, CHR 0xE0, CHR 0xB0,
     CHR 0xB0, CHR 0xE0, CHR 0xB1, CHR 0x87, CHR 0x2C, CHR 0x20, CHR 0xE0, CHR 0xB0, CHR 0xA7,
     CHR 0xE0, CHR 0xB0, CHR 0xA8, CHR 0xE0, CHR 0xB1, CHR 0x8D, CHR 0xE0, CHR 0xB0, CHR 0xAF,
     CHR 0xE0, CHR 0xB0, CHR 0xB5, CHR 0xE0, CHR 0xB0, CHR 0xBE, CHR 0xE0, CHR 0xB0, CHR 0xA6,
     CHR 0xE0, CHR 0xB0, CHR 0xBE, CHR 0xE0, CHR 0xB0, CHR 0xB2, CHR 0xE0, CHR 0xB1, CHR 0x81]"

definition hints_en :: string where
  "hints_en = ''yes, no, okay, thank you''"

definition hints_ur :: string where
  "hints_ur =
    [CHR 0xDB, CHR 0x81, CHR 0xD8, CHR 0xA7, CHR 0xDA, CHR 0xBA, CHR 0x2C, CHR 0x20, CHR 0xD9,
     CHR 0x86, CHR 0xDB, CHR 0x81, CHR 0xDB, CHR 0x8C, CHR 0xDA, CHR 0xBA, CHR 0x2C, CHR 0x20,
     CHR 0xD9, CHR 0xB9, CHR 0xDA, CHR 0xBE, CHR 0xDB, CHR 0x8C, CHR 0xDA, CHR 0xA9, CHR 0x20,
     CHR 0xDB, CHR 0x81, CHR 0xDB, CHR 0x92, CHR 0x2C, CHR 0x20, CHR 0xD8, CHR 0xB4, CHR 0xDA,
     CHR 0xA9, CHR 0xD8, CHR 0xB1, CHR 0xDB, CHR 0x8C, CHR 0xDB, CHR 0x81]"

section \<open>Language lookups\<close>

text \<open>\<open>d.get(k, default)\<close> on a table of the source.\<close>

definition dict_get :: "(string \<times> 'v) list \<Rightarrow> string \<Rightarrow> 'v \<Rightarrow> 'v" where
  "dict_get d k dflt = (case map_of d k of Some v \<Rightarrow> v | None \<Rightarrow> dflt)"

text \<open>\<open>RasaHandler.greetings\<close> and \<open>RasaHandler.get_initial_greeting\<close>.\<close>

definition greetings :: "(string \<times> string) list" where
  "greetings = [(''hi'', greeting_hi), (''te'', greeting_te), (''en'', greeting_en), (''ur'', greeting_ur)]"

definition get_initial_greeting :: "string option \<Rightarrow> string \<Rightarrow> string" where
  "get_initial_greeting sender_id language = dict_get greetings language greeting_en"

text \<open>\<open>RasaHandler._get_fallback_response\<close>.\<close>

definition fallback_messages :: "(string \<times> string) list" where
  "fallback_messages =
     [(''hi'', fallback_message_hi), (''te'', fallback_message_te),
      (''en'', fallback_message_en), (''ur'', fallback_message_ur)]"

definition get_fallback_response :: "string \<Rightarrow> string" where
  "get_fallback_response language = dict_get fallback_messages language fallback_message_en"

text \<open>The table \<open>error_messages\<close> of \<open>TwilioHandler.generate_error_response\<close>.\<close>

definition error_messages :: "(string \<times> string) list" where
  "error_messages =
     [(''hi'', error_message_hi), (''te'', error_message_te),
      (''en'', error_message_en), (''ur'', error_message_ur)]"

text \<open>\<open>TwilioHandler._get_twilio_language\<close>.\<close>

definition get_twilio_language :: "string \<Rightarrow> string" where
  "get_twilio_language language =
     dict_get [(''hi'', ''hi-IN''), (''te'', ''te-IN''), (''en'', ''en-IN''), (''ur'', ''ur-PK'')]
       language ''en-IN''"

text \<open>\<open>TwilioHandler._get_speech_hints\<close>.\<close>

definition hints_map :: "(string \<times> string) list" where
  "hints_map = [(''hi'', hints_hi), (''te'', hints_te), (''en'', hints_en), (''ur'', hints_ur)]"

definition get_speech_hints :: "string \<Rightarrow> string" where
  "get_speech_hints language = dict_get hints_map language ''''"

text \<open>\<open>SarvamTTS._get_sarvam_language_code\<close>.\<close>

definition get_sarvam_language_code :: "string \<Rightarrow> string" where
  "get_sarvam_language_code language =
     dict_get [(''hi'', ''hi-IN''), (''te'', ''te-IN''), (''en'', ''en-IN''), (''ur'', ''ur-PK'')]
       language ''hi-IN''"

text \<open>
  \<open>SarvamTTS._get_voice_for_language\<close>; \<open>default_voice\<close> is the attribute set in
  the constructor, \<open>os.getenv('DEFAULT_VOICE', 'meera')\<close>.
\<close>

definition get_voice_for_language :: "string \<Rightarrow> string \<Rightarrow> string" where
  "get_voice_for_language default_voice language =
     dict_get [(''hi'', ''meera''), (''te'', ''meera''), (''en'', ''meera''), (''ur'', ''meera'')]
       language default_voice"

section \<open>Configuration and the outside world\<close>

text \<open>
  The environment variables the modules read (\<open>None\<close>: unset), and what the network
  and the file system answer during one request. \<open>save_audio\<close> stands for the body
  of \<open>SarvamTTS._save_audio_temporarily\<close> up to the file write: \<open>None\<close> when
  creating the directory, decoding the base64 payload or writing the file raised, and
  otherwise the value of \<open>int(time.time() * 1000)\<close> that names the file.
\<close>

record config =
  env_default_language :: "string option"
  env_server_url :: "string option"
  env_sarvam_api_key :: "string option"
  env_default_voice :: "string option"

record turn =
  user :: string
  bot :: string

record rasa_payload =
  sender :: "string option"
  message :: string
  metadata_language :: string
  metadata_conversation_history :: "turn list"

record tts_payload =
  tts_text :: string
  language_code :: string
  speaker :: string

record world =
  rasa_post :: "rasa_payload \<Rightarrow> http_outcome"
  rasa_get_status :: http_outcome
  sarvam_post :: "tts_payload \<Rightarrow> http_outcome"
  save_audio :: "json \<Rightarrow> nat option"

section \<open>SarvamTTS\<close>

text \<open>
  \<open>_save_audio_temporarily\<close>: the URL of the saved file, or \<open>None\<close> from its own
  \<open>except Exception\<close>.
\<close>

definition save_audio_temporarily :: "config \<Rightarrow> world \<Rightarrow> json \<Rightarrow> string \<Rightarrow> json" where
  "save_audio_temporarily cfg w audio_base64 language =
     (case save_audio w audio_base64 of
        None \<Rightarrow> JNull
      | Some t \<Rightarrow>
          JStr (getenv_default (env_server_url cfg) ''http://localhost:5000''
                @ ''/audio/'' @ language @ ''_'' @ str_nat t @ ''.wav''))"

text \<open>
  The request that \<open>generate_speech\<close> posts to the provider. The payload fields
  that are constants (pitch, pace, loudness, sample rate, preprocessing, model) are
  left out of \<open>tts_payload\<close>.
\<close>

definition build_tts_payload :: "config \<Rightarrow> string \<Rightarrow> string \<Rightarrow> string option \<Rightarrow> tts_payload" where
  "build_tts_payload cfg txt language voice =
     (let default_voice = getenv_default (env_default_voice cfg) ''meera'';
          selected_voice =
            (case voice of
               Some v \<Rightarrow> if v \<noteq> [] then v else get_voice_for_language default_voice language
             | None \<Rightarrow> get_voice_for_language default_voice language)
      in \<lparr>tts_text = txt, language_code = get_sarvam_language_code language,
          speaker = selected_voice\<rparr>)"

text \<open>The \<open>try\<close> block of \<open>generate_speech\<close>.\<close>

definition generate_speech_try ::
  "config \<Rightarrow> world \<Rightarrow> string \<Rightarrow> string \<Rightarrow> string option \<Rightarrow> exn + json" where
  "generate_speech_try cfg w txt language voice =
     (case sarvam_post w (build_tts_payload cfg txt language voice) of
        Raises e \<Rightarrow> Inl e
      | Response status_code body \<Rightarrow>
          if status_code = 200 then
            (case body of
               None \<Rightarrow> Inl JSONDecodeError
             | Some result \<Rightarrow>
                 then_do (py_in ''audio'' result) (\<lambda>has_audio.
                   if has_audio then
                     then_do (py_index result ''audio'') (\<lambda>audio_data.
                       Inr (save_audio_temporarily cfg w audio_data language))
                   else
                     then_do (py_in ''audio_url'' result) (\<lambda>has_url.
                       if has_url then py_index result ''audio_url'' else Inr JNull)))
          else Inr JNull)"

text \<open>
  \<open>generate_speech\<close>: the guard on the API key, then the \<open>try\<close> block with its two
  handlers, \<open>except requests.exceptions.Timeout\<close> and \<open>except Exception\<close>.
\<close>

definition generate_speech ::
  "config \<Rightarrow> world \<Rightarrow> string \<Rightarrow> string \<Rightarrow> string option \<Rightarrow> exn + json" where
  "generate_speech cfg w txt language voice =
     (if \<not> (case env_sarvam_api_key cfg of Some k \<Rightarrow> k \<noteq> [] | None \<Rightarrow> False) then Inr JNull
      else
        (case generate_speech_try cfg w txt language voice of
           Inr audio_url \<Rightarrow> Inr audio_url
         | Inl Timeout \<Rightarrow> Inr JNull
         | Inl e \<Rightarrow> Inr JNull))"

section \<open>RasaHandler\<close>

text \<open>The list comprehension \<open>[r.get('text', '') for r in responses if 'text' in r]\<close>.\<close>

fun collect_texts :: "json list \<Rightarrow> exn + json list" where
  "collect_texts [] = Inr []"
| "collect_texts (r # rs) =
     then_do (py_in ''text'' r) (\<lambda>has_text.
       if has_text then
         then_do (py_get ''text'' (JStr []) r) (\<lambda>t.
           then_do (collect_texts rs) (\<lambda>ts. Inr (t # ts)))
       else collect_texts rs)"

text \<open>The request that \<open>send_message\<close> posts to the webhook.\<close>

definition build_payload ::
  "string option \<Rightarrow> string \<Rightarrow> string \<Rightarrow> turn list \<Rightarrow> rasa_payload" where
  "build_payload sender_id msg language conversation_history =
     \<lparr>sender = sender_id, message = msg, metadata_language = language,
      metadata_conversation_history =
        (if conversation_history \<noteq> [] then conversation_history else [])\<rparr>"

text \<open>The \<open>try\<close> block of \<open>send_message\<close>, after the request has been answered.\<close>

definition send_message_try :: "http_outcome \<Rightarrow> string \<Rightarrow> exn + string" where
  "send_message_try outcome language =
     (case outcome of
        Raises e \<Rightarrow> Inl e
      | Response status_code body \<Rightarrow>
          if status_code = 200 then
            (case body of
               None \<Rightarrow> Inl JSONDecodeError
             | Some responses \<Rightarrow>
                 if \<not> truthy responses then Inr (get_fallback_response language)
                 else
                   then_do (py_len responses) (\<lambda>n.
                     if n > 0 then
                       then_do (py_iter responses) (\<lambda>rs.
                         then_do (collect_texts rs) (\<lambda>texts. py_join '' '' texts))
                     else Inr (get_fallback_response language)))
          else Inr (get_fallback_response language))"

text \<open>
  \<open>send_message\<close>: the reply or the exception that leaves the method, and the
  requests it has made to the conversation engine.
\<close>

definition send_message ::
  "world \<Rightarrow> string option \<Rightarrow> string \<Rightarrow> string \<Rightarrow> turn list
     \<Rightarrow> (exn + string) \<times> rasa_payload list" where
  "send_message w sender_id msg language conversation_history =
     (let payload = build_payload sender_id msg language conversation_history
      in (case send_message_try (rasa_post w payload) language of
            Inr bot_response \<Rightarrow> Inr bot_response
          | Inl Timeout \<Rightarrow> Inr (get_fallback_response language)
          | Inl e \<Rightarrow> Inr (get_fallback_response language),
          [payload]))"

definition check_health :: "world \<Rightarrow> bool" where
  "check_health w =
     (case rasa_get_status w of Raises e \<Rightarrow> False | Response status_code body \<Rightarrow> status_code = 200)"

section \<open>TwilioHandler\<close>

text \<open>The verbs of a \<open>VoiceResponse\<close>, in document order.\<close>

record gather =
  g_input :: string
  g_timeout :: nat
  g_action :: string
  g_language :: string
  g_speech_timeout :: string
  g_hints :: string

datatype verb =
    Play json
  | Say string string
  | Gather gather
  | Redirect string
  | Hangup

text \<open>
  The \<open>Gather\<close> and the \<open>redirect\<close> that \<open>generate_greeting_response\<close> and
  \<open>generate_response\<close> both append; \<open>server_url\<close> is \<open>os.getenv('SERVER_URL')\<close>.
\<close>

definition listen_and_redirect :: "config \<Rightarrow> string \<Rightarrow> verb list" where
  "listen_and_redirect cfg language =
     [Gather \<lparr>g_input = ''speech'', g_timeout = 5,
              g_action = fmt (env_server_url cfg) @ ''/voice/process'',
              g_language = get_twilio_language language,
              g_speech_timeout = ''auto'',
              g_hints = get_speech_hints language\<rparr>,
      Redirect (fmt (env_server_url cfg) @ ''/voice/process'')]"

definition generate_greeting_response ::
  "config \<Rightarrow> world \<Rightarrow> string \<Rightarrow> string \<Rightarrow> exn + verb list" where
  "generate_greeting_response cfg w msg language =
     then_do (generate_speech cfg w msg language None) (\<lambda>audio_url.
       Inr ((if truthy audio_url then [Play audio_url]
             else [Say msg (get_twilio_language language)])
            @ listen_and_redirect cfg language))"

definition generate_response ::
  "config \<Rightarrow> world \<Rightarrow> string \<Rightarrow> string \<Rightarrow> bool \<Rightarrow> exn + verb list" where
  "generate_response cfg w msg language end_call =
     then_do (generate_speech cfg w msg language None) (\<lambda>audio_url.
       Inr ((if truthy audio_url then [Play audio_url]
             else [Say msg (get_twilio_language language)])
            @ (if end_call then [Hangup] else listen_and_redirect cfg language)))"

definition error_msg :: "string \<Rightarrow> string" where
  "error_msg language = dict_get error_messages language error_message_en"

definition generate_error_response :: "string \<Rightarrow> verb list" where
  "generate_error_response language =
     [Say (error_msg language) (get_twilio_language language), Hangup]"

section \<open>The Flask application\<close>

text \<open>
  A session is the dict stored in \<open>call_sessions\<close>; the key is
  \<open>request.form.get('CallSid')\<close>, which is \<open>None\<close> when the field is missing. The
  state of the application is that dict, together with the requests sent to the
  conversation engine so far. A form is the map of the posted fields.
\<close>

record session =
  from_number :: "string option"
  language :: string
  conversation_history :: "turn list"

record app_state =
  call_sessions :: "string option \<rightharpoonup> session"
  rasa_requests :: "rasa_payload list"

datatype response =
    TwiML "verb list"
  | JsonBody "(string \<times> json) list" nat

type_synonym form = "string \<rightharpoonup> string"

text \<open>
  \<open>str(twiml)\<close>, the serialisation of the document that the handlers put into the
  \<open>Response\<close>. The value of a \<open>Play\<close> verb becomes the text of its element
  and has to be a str: any other value (a truthy number, boolean, list or object that
  the provider sent as \<open>audio_url\<close>) raises a \<open>TypeError\<close>. Attribute values
  go through \<open>str\<close> and the texts of \<open>Say\<close> and \<open>Redirect\<close> are strs, so
  the other verbs always serialise.
\<close>

fun serialisable :: "verb \<Rightarrow> bool" where
  "serialisable (Play (JStr url)) = True"
| "serialisable (Play v) = False"
| "serialisable (Say msg locale) = True"
| "serialisable (Gather g) = True"
| "serialisable (Redirect url) = True"
| "serialisable Hangup = True"

definition str_twiml :: "verb list \<Rightarrow> exn + verb list" where
  "str_twiml twiml = (if list_all serialisable twiml then Inr twiml else Inl TypeError)"

text \<open>
  The \<open>except Exception\<close> clause of \<open>incoming_call\<close> and of
  \<open>process_speech\<close>: the document of \<open>generate_error_response()\<close>, called with
  its default argument \<open>'hi'\<close>. It holds a \<open>Say\<close> and a \<open>Hangup\<close> and so
  always serialises.
\<close>

definition error_answer :: response where
  "error_answer = TwiML (generate_error_response ''hi'')"

text \<open>
  \<open>incoming_call\<close>. The assignment to \<open>call_sessions\<close> has happened when the
  \<open>except\<close> clause is reached.
\<close>

definition incoming_call :: "config \<Rightarrow> world \<Rightarrow> form \<Rightarrow> app_state \<Rightarrow> response \<times> app_state" where
  "incoming_call cfg w frm st =
     (let call_sid = frm ''CallSid'';
          from_no = frm ''From'';
          lang = (case frm ''language'' of
                    Some l \<Rightarrow> l
                  | None \<Rightarrow> getenv_default (env_default_language cfg) ''hi'');
          st1 = st\<lparr>call_sessions := (call_sessions st)(call_sid \<mapsto>
                   \<lparr>from_number = from_no, language = lang, conversation_history = []\<rparr>)\<rparr>;
          initial_message = get_initial_greeting call_sid lang
      in case then_do (generate_greeting_response cfg w initial_message lang) str_twiml of
           Inr document \<Rightarrow> (TwiML document, st1)
         | Inl e \<Rightarrow> (error_answer, st1))"

text \<open>
  \<open>process_speech\<close>. The \<open>Confidence\<close> field is read for the log line only. The
  missing-session answer is \<open>generate_error_response()\<close> as well, serialised inside
  the \<open>try\<close> block. The request to the conversation engine and the append to the
  history have happened when a later step raises.
\<close>

definition process_speech :: "config \<Rightarrow> world \<Rightarrow> form \<Rightarrow> app_state \<Rightarrow> response \<times> app_state" where
  "process_speech cfg w frm st =
     (let call_sid = frm ''CallSid'';
          speech_result = (case frm ''SpeechResult'' of Some s \<Rightarrow> s | None \<Rightarrow> [])
      in case call_sessions st call_sid of
           None \<Rightarrow>
             (case str_twiml (generate_error_response ''hi'') of
                Inr document \<Rightarrow> (TwiML document, st)
              | Inl e \<Rightarrow> (error_answer, st))
         | Some sess \<Rightarrow>
             (let lang = language sess;
                  (r, sent) = send_message w call_sid speech_result lang (conversation_history sess);
                  st1 = st\<lparr>rasa_requests := rasa_requests st @ sent\<rparr>
              in case r of
                   Inl e \<Rightarrow> (error_answer, st1)
                 | Inr rasa_response \<Rightarrow>
                     (let st2 = st1\<lparr>call_sessions := (call_sessions st1)(call_sid \<mapsto>
                                  sess\<lparr>conversation_history := conversation_history sess
                                         @ [\<lparr>user = speech_result, bot = rasa_response\<rparr>]\<rparr>)\<rparr>
                      in case then_do (generate_response cfg w rasa_response lang False) str_twiml of
                           Inr document \<Rightarrow> (TwiML document, st2)
                         | Inl e \<Rightarrow> (error_answer, st2))))"

text \<open>\<open>call_status\<close>.\<close>

definition call_status :: "form \<Rightarrow> app_state \<Rightarrow> response \<times> app_state" where
  "call_status frm st =
     (let call_sid = frm ''CallSid'';
          status = frm ''CallStatus'';
          st1 = (if status \<in> set [Some ''completed'', Some ''failed'', Some ''busy'', Some ''no-answer'']
                 then (if call_sessions st call_sid \<noteq> None
                       then st\<lparr>call_sessions := (call_sessions st)(call_sid := None)\<rparr>
                       else st)
                 else st)
      in (JsonBody [(''status'', JStr ''received'')] 200, st1))"

text \<open>\<open>health\<close>.\<close>

definition health :: "world \<Rightarrow> response" where
  "health w =
     JsonBody [(''status'', JStr ''healthy''),
               (''rasa_status'', JBool (check_health w)),
               (''twilio_status'', JStr ''connected'')] 200"

section \<open>Notions of the specification\<close>

text \<open>The supported language tags: the keys of every table above.\<close>

definition supported_languages :: "string list" where
  "supported_languages = [''hi'', ''te'', ''en'', ''ur'']"

text \<open>
  The language profile of the specification, assembled from the lookups of the
  source: greeting, fallback text, error text, speech hints, synthesis voice and
  recognition locale.
\<close>

record language_profile =
  greeting_text :: string
  fallback_text :: string
  error_text :: string
  speech_hints :: string
  synthesis_voice :: string
  recognition_locale :: string

definition resolve :: "config \<Rightarrow> string \<Rightarrow> language_profile" where
  "resolve cfg tag =
     \<lparr>greeting_text = get_initial_greeting None tag,
      fallback_text = get_fallback_response tag,
      error_text = error_msg tag,
      speech_hints = get_speech_hints tag,
      synthesis_voice = get_voice_for_language (getenv_default (env_default_voice cfg) ''meera'') tag,
      recognition_locale = get_twilio_language tag\<rparr>"

text \<open>
  The failures of the conversation engine that the specification lists: an exception
  raised anywhere in the \<open>try\<close> block of \<open>send_message\<close> (by the request, a
  timeout among them; by decoding the body; by \<open>len\<close>, the comprehension or
  \<open>join\<close> on a malformed answer), a status other than 200, an empty response list.
\<close>

definition engine_failure :: "http_outcome \<Rightarrow> string \<Rightarrow> bool" where
  "engine_failure outcome lang =
     (isl (send_message_try outcome lang) \<or>
      (case outcome of
         Raises e \<Rightarrow> True
       | Response status_code body \<Rightarrow> status_code \<noteq> 200 \<or> body = Some (JList [])))"

text \<open>
  The failures of speech synthesis that the specification lists: no credentials, a
  timeout, a status other than 200, a response object with neither \<open>audio\<close> nor
  \<open>audio_url\<close>.
\<close>

definition has_credentials :: "config \<Rightarrow> bool" where
  "has_credentials cfg = (case env_sarvam_api_key cfg of Some k \<Rightarrow> k \<noteq> [] | None \<Rightarrow> False)"

fun provider_failure :: "http_outcome \<Rightarrow> bool" where
  "provider_failure (Raises e) = (e = Timeout)"
| "provider_failure (Response status_code body) =
     (status_code \<noteq> 200 \<or>
      (case body of
         Some (JObj kvs) \<Rightarrow> map_of kvs ''audio'' = None \<and> map_of kvs ''audio_url'' = None
       | _ \<Rightarrow> False))"

text \<open>
  A response fragment of the conversation engine: an object whose \<open>text\<close> member,
  when it has one, is a string. The reply the specification describes: the texts of
  the fragments in order, with one space between neighbours.
\<close>

fun is_fragment :: "json \<Rightarrow> bool" where
  "is_fragment (JObj kvs) =
     (case map_of kvs ''text'' of None \<Rightarrow> True | Some (JStr t) \<Rightarrow> True | Some _ \<Rightarrow> False)"
| "is_fragment _ = False"

fun fragment_texts :: "json list \<Rightarrow> string list" where
  "fragment_texts [] = []"
| "fragment_texts (JObj kvs # fs) =
     (case map_of kvs ''text'' of
        Some (JStr t) \<Rightarrow> t # fragment_texts fs
      | _ \<Rightarrow> fragment_texts fs)"
| "fragment_texts (f # fs) = fragment_texts fs"

fun join_with_space :: "string list \<Rightarrow> string" where
  "join_with_space [] = []"
| "join_with_space [t] = t"
| "join_with_space (t # u # us) = t @ '' '' @ join_with_space (u # us)"

text \<open>The terminal call statuses.\<close>

definition terminal_status :: "string option \<Rightarrow> bool" where
  "terminal_status status =
     (case status of
        None \<Rightarrow> False
      | Some s \<Rightarrow> s = ''completed'' \<or> s = ''failed'' \<or> s = ''busy'' \<or> s = ''no-answer'')"

text \<open>The member names of a JSON response; a markup document has none.\<close>

fun json_keys :: "response \<Rightarrow> string list" where
  "json_keys (JsonBody kvs status_code) = map fst kvs"
| "json_keys (TwiML verbs) = []"

fun is_markup :: "response \<Rightarrow> bool" where
  "is_markup (TwiML verbs) = True"
| "is_markup (JsonBody kvs status_code) = False"

section \<open>Sample inputs\<close>

definition sample_config :: config where
  "sample_config =
     \<lparr>env_default_language = None, env_server_url = Some ''https://bot.example'',
      env_sarvam_api_key = Some ''secret'', env_default_voice = None\<rparr>"

text \<open>A world in which the conversation engine and the synthesis provider answer as given.\<close>

definition sample_world :: "http_outcome \<Rightarrow> http_outcome \<Rightarrow> world" where
  "sample_world engine provider =
     \<lparr>rasa_post = (\<lambda>p. engine), rasa_get_status = Response 200 None,
      sarvam_post = (\<lambda>p. provider), save_audio = (\<lambda>a. Some 1234)\<rparr>"

definition sample_session :: session where
  "sample_session =
     \<lparr>from_number = Some ''+911'', language = ''en'',
      conversation_history = [\<lparr>user = ''hello'', bot = ''Hi there''\<rparr>]\<rparr>"

definition sample_state :: app_state where
  "sample_state =
     \<lparr>call_sessions = [Some ''CA1'' \<mapsto> sample_session], rasa_requests = []\<rparr>"

section \<open>Auxiliary facts\<close>

lemma then_do_Inr [simp]: "then_do (Inr v) f = f v"
  by (simp add: then_do_def)

lemma then_do_Inl [simp]: "then_do (Inl e) f = Inl e"
  by (simp add: then_do_def)

lemma send_message_returns:
  "\<exists>reply. fst (send_message w sid msg lang hist) = Inr reply"
  by (simp add: send_message_def Let_def split: sum.split exn.split)

lemma send_message_requests:
  "snd (send_message w sid msg lang hist) = [build_payload sid msg lang hist]"
  by (simp add: send_message_def Let_def)

lemma generate_speech_returns:
  "\<exists>audio_url. generate_speech cfg w txt lang voice = Inr audio_url"
  by (simp add: generate_speech_def split: sum.split exn.split)

lemma generate_greeting_response_returns:
  "\<exists>twiml. generate_greeting_response cfg w msg lang = Inr twiml"
proof -
  obtain a where "generate_speech cfg w msg lang None = Inr a"
    using generate_speech_returns by blast
  then show ?thesis by (simp add: generate_greeting_response_def)
qed

lemma generate_response_returns:
  "\<exists>twiml. generate_response cfg w msg lang end_call = Inr twiml"
proof -
  obtain a where "generate_speech cfg w msg lang None = Inr a"
    using generate_speech_returns by blast
  then show ?thesis by (simp add: generate_response_def)
qed

lemma sample_generate_speech_timeout:
  "generate_speech sample_config (sample_world engine (Raises Timeout)) txt lang None = Inr JNull"
  by (simp add: generate_speech_def generate_speech_try_def sample_config_def sample_world_def)

section \<open>Call start\<close>

text \<open>
  C1 (as amended). A call-start event stores, under its call id, a fresh session with
  the caller number and language of the event and an empty history, whether or not the
  call id had a session before: an existing session is replaced, and nothing like a
  duplicate-session failure is reported, the answer being a markup document. No request
  goes to the conversation engine.
\<close>

theorem incoming_call_replaces_session:
  "call_sessions (snd (incoming_call cfg w frm st)) =
     (call_sessions st)(frm ''CallSid'' \<mapsto>
        \<lparr>from_number = frm ''From'',
         language = (case frm ''language'' of
                       Some l \<Rightarrow> l
                     | None \<Rightarrow> getenv_default (env_default_language cfg) ''hi''),
         conversation_history = []\<rparr>)
   \<and> rasa_requests (snd (incoming_call cfg w frm st)) = rasa_requests st
   \<and> is_markup (fst (incoming_call cfg w frm st))"
  by (simp add: incoming_call_def Let_def error_answer_def split: sum.split)

text \<open>
  C1 as stated fails: a second call-start event for \<open>CA1\<close> is answered with the
  greeting, and the session of \<open>CA1\<close> has lost its caller number, its language and
  its history.
\<close>

theorem incoming_call_duplicate_counterexample:
  "call_sessions sample_state (Some ''CA1'') =
     Some \<lparr>from_number = Some ''+911'', language = ''en'',
           conversation_history = [\<lparr>user = ''hello'', bot = ''Hi there''\<rparr>]\<rparr>
   \<and> incoming_call sample_config (sample_world (Raises Timeout) (Raises Timeout))
        [''CallSid'' \<mapsto> ''CA1'', ''From'' \<mapsto> ''+922'', ''language'' \<mapsto> ''te'']
        sample_state =
       (TwiML (Say greeting_te ''te-IN'' # listen_and_redirect sample_config ''te''),
        sample_state\<lparr>call_sessions := [Some ''CA1'' \<mapsto>
           \<lparr>from_number = Some ''+922'', language = ''te'', conversation_history = []\<rparr>]\<rparr>)"
  by (simp add: incoming_call_def Let_def sample_state_def sample_session_def
      generate_greeting_response_def sample_generate_speech_timeout
      get_initial_greeting_def dict_get_def greetings_def get_twilio_language_def
      str_twiml_def listen_and_redirect_def)


section \<open>Conversation engine\<close>

text \<open>
  C2. \<open>send_message\<close> always returns a reply and never lets an exception out; when
  the request times out, when anything else raises in the \<open>try\<close> block (in the
  request or while the answer is decoded and joined), when the status is not 200, and
  when the response is the empty list, the reply is the fallback text of the language.
\<close>

theorem send_message_never_raises:
  "(\<exists>reply. fst (send_message w sid msg lang hist) = Inr reply)
   \<and> (engine_failure (rasa_post w (build_payload sid msg lang hist)) lang \<longrightarrow>
        fst (send_message w sid msg lang hist) = Inr (get_fallback_response lang))"
proof
  show "\<exists>reply. fst (send_message w sid msg lang hist) = Inr reply"
    by (rule send_message_returns)
next
  let ?out = "rasa_post w (build_payload sid msg lang hist)"
  show "engine_failure ?out lang \<longrightarrow>
        fst (send_message w sid msg lang hist) = Inr (get_fallback_response lang)"
  proof
    assume fail: "engine_failure ?out lang"
    show "fst (send_message w sid msg lang hist) = Inr (get_fallback_response lang)"
    proof (cases "send_message_try ?out lang")
      case (Inl e)
      then show ?thesis
        by (cases e) (simp_all add: send_message_def Let_def)
    next
      case (Inr reply)
      with fail have answer: "case ?out of Raises e \<Rightarrow> True
          | Response status_code body \<Rightarrow> status_code \<noteq> 200 \<or> body = Some (JList [])"
        by (simp add: engine_failure_def)
      show ?thesis
      proof (cases ?out)
        case (Raises e)
        with Inr show ?thesis by (simp add: send_message_try_def)
      next
        case (Response status_code body)
        with answer have "status_code \<noteq> 200 \<or> body = Some (JList [])" by simp
        with Response show ?thesis
          by (auto simp add: send_message_def send_message_try_def Let_def)
      qed
    qed
  qed
qed

theorem send_message_never_raises_witness:
  "engine_failure (Raises Timeout) ''en''
   \<and> fst (send_message (sample_world (Raises Timeout) (Raises Timeout)) (Some ''CA1'') ''hello'' ''en'' [])
       = Inr fallback_message_en
   \<and> engine_failure (Raises ConnectionError) ''hi''
   \<and> fst (send_message (sample_world (Raises ConnectionError) (Raises Timeout)) (Some ''CA1'') ''hello'' ''hi'' [])
       = Inr fallback_message_hi
   \<and> engine_failure (Response 500 None) ''te''
   \<and> fst (send_message (sample_world (Response 500 None) (Raises Timeout)) (Some ''CA1'') ''hello'' ''te'' [])
       = Inr fallback_message_te
   \<and> engine_failure (Response 200 (Some (JList []))) ''fr''
   \<and> fst (send_message (sample_world (Response 200 (Some (JList []))) (Raises Timeout)) (Some ''CA1'') ''hello'' ''fr'' [])
       = Inr fallback_message_en
   \<and> engine_failure (Response 200 None) ''ur''
   \<and> fst (send_message (sample_world (Response 200 None) (Raises Timeout)) (Some ''CA1'') ''hello'' ''ur'' [])
       = Inr fallback_message_ur
   \<and> engine_failure (Response 200 (Some (JNum 7))) ''en''
   \<and> fst (send_message (sample_world (Response 200 (Some (JNum 7))) (Raises Timeout)) (Some ''CA1'') ''hello'' ''en'' [])
       = Inr fallback_message_en
   \<and> engine_failure (Response 200 (Some (JList [JNum 7]))) ''en''
   \<and> fst (send_message (sample_world (Response 200 (Some (JList [JNum 7]))) (Raises Timeout)) (Some ''CA1'') ''hello'' ''en'' [])
       = Inr fallback_message_en
   \<and> engine_failure (Response 200 (Some (JList [JStr ''some text'']))) ''en''
   \<and> fst (send_message (sample_world (Response 200 (Some (JList [JStr ''some text'']))) (Raises Timeout)) (Some ''CA1'') ''hello'' ''en'' [])
       = Inr fallback_message_en
   \<and> engine_failure (Response 200 (Some (JList [JObj [(''text'', JNull)]]))) ''en''
   \<and> fst (send_message (sample_world (Response 200 (Some (JList [JObj [(''text'', JNull)]]))) (Raises Timeout)) (Some ''CA1'') ''hello'' ''en'' [])
       = Inr fallback_message_en"
  using send_message_never_raises [of "sample_world (Raises Timeout) (Raises Timeout)" "Some ''CA1''" "''hello''" "''en''" "[]"]
    send_message_never_raises [of "sample_world (Raises ConnectionError) (Raises Timeout)" "Some ''CA1''" "''hello''" "''hi''" "[]"]
    send_message_never_raises [of "sample_world (Response 500 None) (Raises Timeout)" "Some ''CA1''" "''hello''" "''te''" "[]"]
    send_message_never_raises [of "sample_world (Response 200 (Some (JList []))) (Raises Timeout)" "Some ''CA1''" "''hello''" "''fr''" "[]"]
    send_message_never_raises [of "sample_world (Response 200 None) (Raises Timeout)" "Some ''CA1''" "''hello''" "''ur''" "[]"]
    send_message_never_raises [of "sample_world (Response 200 (Some (JNum 7))) (Raises Timeout)" "Some ''CA1''" "''hello''" "''en''" "[]"]
    send_message_never_raises [of "sample_world (Response 200 (Some (JList [JNum 7]))) (Raises Timeout)" "Some ''CA1''" "''hello''" "''en''" "[]"]
    send_message_never_raises [of "sample_world (Response 200 (Some (JList [JStr ''some text'']))) (Raises Timeout)" "Some ''CA1''" "''hello''" "''en''" "[]"]
    send_message_never_raises [of "sample_world (Response 200 (Some (JList [JObj [(''text'', JNull)]]))) (Raises Timeout)" "Some ''CA1''" "''hello''" "''en''" "[]"]
  by (simp add: sample_world_def engine_failure_def send_message_try_def
      get_fallback_response_def dict_get_def fallback_messages_def)

lemma collect_texts_fragments:
  "\<forall>f \<in> set frags. is_fragment f \<Longrightarrow>
     collect_texts frags = Inr (map JStr (fragment_texts frags))"
proof (induction frags)
  case Nil
  show ?case by simp
next
  case (Cons f fs)
  from Cons.prems have frag: "is_fragment f" and rest: "\<forall>g \<in> set fs. is_fragment g"
    by simp_all
  from frag obtain kvs where f: "f = JObj kvs" by (cases f) simp_all
  have ih: "collect_texts fs = Inr (map JStr (fragment_texts fs))"
    using Cons.IH rest by blast
  show ?case
  proof (cases "map_of kvs ''text''")
    case None
    then have "''text'' \<notin> set (map fst kvs)" by (simp add: map_of_eq_None_iff)
    with None f ih show ?thesis by simp
  next
    case (Some v)
    with frag f obtain t where v: "v = JStr t" by (cases v) simp_all
    from Some have "''text'' \<in> set (map fst kvs)"
      by (metis map_of_eq_None_iff option.distinct(1) set_map)
    with Some v f ih show ?thesis by simp
  qed
qed

lemma py_join_space: "py_join '' '' (map JStr ts) = Inr (join_with_space ts)"
  by (induction ts rule: join_with_space.induct) simp_all

text \<open>
  C8. When the conversation engine answers 200 with a non-empty list of fragments, the
  reply of \<open>send_message\<close> is the texts of the fragments, in list order, joined by
  a single space.
\<close>

theorem send_message_joins_fragments:
  assumes "rasa_post w (build_payload sid msg lang hist) = Response 200 (Some (JList frags))"
    and "frags \<noteq> []"
    and "\<forall>f \<in> set frags. is_fragment f"
  shows "fst (send_message w sid msg lang hist) = Inr (join_with_space (fragment_texts frags))"
  using assms
  by (simp add: send_message_def send_message_try_def Let_def collect_texts_fragments py_join_space)

theorem send_message_joins_fragments_witness:
  "fst (send_message
          (sample_world
             (Response 200 (Some (JList [JObj [(''text'', JStr ''Hi there.'')],
                                          JObj [(''image'', JStr ''https://bot.example/a.png'')],
                                          JObj [(''recipient_id'', JStr ''CA1''), (''text'', JStr ''How are you?'')]])))
             (Raises Timeout))
          (Some ''CA1'') ''hello'' ''en'' [])
     = Inr ''Hi there. How are you?''"
  using send_message_joins_fragments
    [of "sample_world
             (Response 200 (Some (JList [JObj [(''text'', JStr ''Hi there.'')],
                                          JObj [(''image'', JStr ''https://bot.example/a.png'')],
                                          JObj [(''recipient_id'', JStr ''CA1''), (''text'', JStr ''How are you?'')]])))
             (Raises Timeout)"
        "Some ''CA1''" "''hello''" "''en''" "[]"
        "[JObj [(''text'', JStr ''Hi there.'')],
          JObj [(''image'', JStr ''https://bot.example/a.png'')],
          JObj [(''recipient_id'', JStr ''CA1''), (''text'', JStr ''How are you?'')]]"]
  by (simp add: sample_world_def)


section \<open>Speech synthesis\<close>

lemma generate_speech_no_credentials:
  "\<not> has_credentials cfg \<Longrightarrow> generate_speech cfg w txt lang voice = Inr JNull"
  by (simp add: generate_speech_def has_credentials_def)

lemma py_in_absent: "map_of kvs k = None \<Longrightarrow> py_in k (JObj kvs) = Inr False"
  by (simp add: map_of_eq_None_iff)

lemma generate_speech_provider_failure:
  assumes "provider_failure (sarvam_post w (build_tts_payload cfg txt lang voice))"
  shows "generate_speech cfg w txt lang voice = Inr JNull"
proof (cases "sarvam_post w (build_tts_payload cfg txt lang voice)")
  case (Raises e)
  with assms have "e = Timeout" by simp
  with Raises show ?thesis
    by (simp add: generate_speech_def generate_speech_try_def)
next
  case (Response status_code body)
  show ?thesis
  proof (cases "status_code = 200")
    case False
    with Response show ?thesis
      by (simp add: generate_speech_def generate_speech_try_def)
  next
    case True
    with Response assms obtain kvs where body: "body = Some (JObj kvs)"
      and absent: "map_of kvs ''audio'' = None" "map_of kvs ''audio_url'' = None"
      by (auto split: option.splits json.splits)
    from Response True body absent show ?thesis
      by (simp add: generate_speech_def generate_speech_try_def py_in_absent del: py_in.simps)
  qed
qed

text \<open>
  C3. \<open>generate_speech\<close> never raises; it returns \<open>None\<close> when there are no
  credentials, when the provider times out, when the status is not 200 and when the
  response has neither \<open>audio\<close> nor \<open>audio_url\<close>. Whenever it returns
  \<open>None\<close>, the markup of the turn and of the greeting starts with a say
  instruction carrying the message and the locale, not with a play instruction.
\<close>

theorem generate_speech_none_then_say:
  "(\<exists>audio_url. generate_speech cfg w txt lang voice = Inr audio_url)
   \<and> (\<not> has_credentials cfg
        \<or> provider_failure (sarvam_post w (build_tts_payload cfg txt lang voice)) \<longrightarrow>
        generate_speech cfg w txt lang voice = Inr JNull)
   \<and> (generate_speech cfg w txt lang None = Inr JNull \<longrightarrow>
        generate_response cfg w txt lang end_call =
          Inr (Say txt (get_twilio_language lang)
               # (if end_call then [Hangup] else listen_and_redirect cfg lang))
        \<and> generate_greeting_response cfg w txt lang =
          Inr (Say txt (get_twilio_language lang) # listen_and_redirect cfg lang))"
proof (intro conjI impI)
  show "\<exists>audio_url. generate_speech cfg w txt lang voice = Inr audio_url"
    by (rule generate_speech_returns)
next
  assume "\<not> has_credentials cfg
          \<or> provider_failure (sarvam_post w (build_tts_payload cfg txt lang voice))"
  then show "generate_speech cfg w txt lang voice = Inr JNull"
    using generate_speech_no_credentials generate_speech_provider_failure by blast
next
  assume "generate_speech cfg w txt lang None = Inr JNull"
  then show "generate_response cfg w txt lang end_call =
          Inr (Say txt (get_twilio_language lang)
               # (if end_call then [Hangup] else listen_and_redirect cfg lang))"
    by (simp add: generate_response_def)
next
  assume "generate_speech cfg w txt lang None = Inr JNull"
  then show "generate_greeting_response cfg w txt lang =
          Inr (Say txt (get_twilio_language lang) # listen_and_redirect cfg lang)"
    by (simp add: generate_greeting_response_def)
qed

theorem generate_speech_none_then_say_witness:
  "\<not> has_credentials (sample_config\<lparr>env_sarvam_api_key := None\<rparr>)
   \<and> generate_speech (sample_config\<lparr>env_sarvam_api_key := None\<rparr>)
        (sample_world (Raises Timeout) (Response 200 (Some (JObj [(''audio_url'', JStr ''https://cdn.example/a.wav'')]))))
        ''Hi there'' ''en'' None = Inr JNull
   \<and> provider_failure (Raises Timeout)
   \<and> generate_speech sample_config (sample_world (Raises Timeout) (Raises Timeout))
        ''Hi there'' ''en'' None = Inr JNull
   \<and> provider_failure (Response 503 None)
   \<and> generate_speech sample_config (sample_world (Raises Timeout) (Response 503 None))
        ''Hi there'' ''en'' None = Inr JNull
   \<and> provider_failure (Response 200 (Some (JObj [(''request_id'', JStr ''r1'')])))
   \<and> generate_speech sample_config
        (sample_world (Raises Timeout) (Response 200 (Some (JObj [(''request_id'', JStr ''r1'')]))))
        ''Hi there'' ''en'' None = Inr JNull
   \<and> generate_response sample_config
        (sample_world (Raises Timeout) (Response 200 (Some (JObj [(''request_id'', JStr ''r1'')]))))
        ''Hi there'' ''en'' False =
       Inr [Say ''Hi there'' ''en-IN'',
            Gather \<lparr>g_input = ''speech'', g_timeout = 5,
                    g_action = ''https://bot.example/voice/process'', g_language = ''en-IN'',
                    g_speech_timeout = ''auto'', g_hints = ''yes, no, okay, thank you''\<rparr>,
            Redirect ''https://bot.example/voice/process'']"
  using
    generate_speech_none_then_say [of "sample_config\<lparr>env_sarvam_api_key := None\<rparr>"
      "sample_world (Raises Timeout) (Response 200 (Some (JObj [(''audio_url'', JStr ''https://cdn.example/a.wav'')])))"
      "''Hi there''" "''en''" None False]
    generate_speech_none_then_say [of sample_config
      "sample_world (Raises Timeout) (Raises Timeout)" "''Hi there''" "''en''" None False]
    generate_speech_none_then_say [of sample_config
      "sample_world (Raises Timeout) (Response 503 None)" "''Hi there''" "''en''" None False]
    generate_speech_none_then_say [of sample_config
      "sample_world (Raises Timeout) (Response 200 (Some (JObj [(''request_id'', JStr ''r1'')])))"
      "''Hi there''" "''en''" None False]
  by (simp add: sample_config_def sample_world_def has_credentials_def listen_and_redirect_def
      get_twilio_language_def get_speech_hints_def hints_map_def dict_get_def hints_en_def fmt_def)


section \<open>Language profile\<close>

lemma texts_nonempty:
  "greeting_hi \<noteq> []" "greeting_te \<noteq> []" "greeting_en \<noteq> []" "greeting_ur \<noteq> []"
  "fallback_message_hi \<noteq> []" "fallback_message_te \<noteq> []"
  "fallback_message_en \<noteq> []" "fallback_message_ur \<noteq> []"
  "error_message_hi \<noteq> []" "error_message_te \<noteq> []"
  "error_message_en \<noteq> []" "error_message_ur \<noteq> []"
  "hints_hi \<noteq> []" "hints_te \<noteq> []" "hints_en \<noteq> []" "hints_ur \<noteq> []"
  by (simp_all add: greeting_hi_def greeting_te_def greeting_en_def greeting_ur_def
      fallback_message_hi_def fallback_message_te_def fallback_message_en_def
      fallback_message_ur_def error_message_hi_def error_message_te_def
      error_message_en_def error_message_ur_def hints_hi_def hints_te_def hints_en_def
      hints_ur_def)

lemma supported_cases:
  "lang \<in> set supported_languages \<longleftrightarrow> lang = ''hi'' \<or> lang = ''te'' \<or> lang = ''en'' \<or> lang = ''ur''"
  by (simp add: supported_languages_def)

text \<open>
  C4 (as amended). Every lookup is total. For a tag outside the supported set each
  lookup falls back to a default of its own: the English greeting, fallback text and
  error text, the recognition locale \<open>en-IN\<close>, the synthesis language code
  \<open>hi-IN\<close>, the default voice of the configuration, and empty speech hints. For a
  supported tag each lookup (greeting, fallback text, error text, speech hints, voice,
  recognition locale, synthesis language code) returns the entry of that tag, and the
  entry is not empty.
\<close>

theorem language_lookups:
  "(lang \<notin> set supported_languages \<longrightarrow>
      get_initial_greeting sid lang = greeting_en
      \<and> get_fallback_response lang = fallback_message_en
      \<and> error_msg lang = error_message_en
      \<and> get_speech_hints lang = []
      \<and> get_voice_for_language default_voice lang = default_voice
      \<and> get_twilio_language lang = ''en-IN''
      \<and> get_sarvam_language_code lang = ''hi-IN'')
   \<and> (lang \<in> set supported_languages \<longrightarrow>
      map_of greetings lang = Some (get_initial_greeting sid lang)
      \<and> get_initial_greeting sid lang =
          (if lang = ''hi'' then greeting_hi else if lang = ''te'' then greeting_te
           else if lang = ''en'' then greeting_en else greeting_ur)
      \<and> get_initial_greeting sid lang \<noteq> []
      \<and> map_of fallback_messages lang = Some (get_fallback_response lang)
      \<and> get_fallback_response lang =
          (if lang = ''hi'' then fallback_message_hi else if lang = ''te'' then fallback_message_te
           else if lang = ''en'' then fallback_message_en else fallback_message_ur)
      \<and> get_fallback_response lang \<noteq> []
      \<and> map_of error_messages lang = Some (error_msg lang)
      \<and> error_msg lang =
          (if lang = ''hi'' then error_message_hi else if lang = ''te'' then error_message_te
           else if lang = ''en'' then error_message_en else error_message_ur)
      \<and> error_msg lang \<noteq> []
      \<and> map_of hints_map lang = Some (get_speech_hints lang)
      \<and> get_speech_hints lang =
          (if lang = ''hi'' then hints_hi else if lang = ''te'' then hints_te
           else if lang = ''en'' then hints_en else hints_ur)
      \<and> get_speech_hints lang \<noteq> []
      \<and> get_voice_for_language default_voice lang = ''meera''
      \<and> get_twilio_language lang = (if lang = ''ur'' then ''ur-PK'' else lang @ ''-IN'')
      \<and> get_sarvam_language_code lang = get_twilio_language lang)"
proof (intro conjI impI)
  assume "lang \<notin> set supported_languages"
  then have ne: "lang \<noteq> ''hi''" "lang \<noteq> ''te''" "lang \<noteq> ''en''" "lang \<noteq> ''ur''"
    by (simp_all add: supported_cases)
  from ne show "get_initial_greeting sid lang = greeting_en"
    by (simp add: get_initial_greeting_def dict_get_def greetings_def)
  from ne show "get_fallback_response lang = fallback_message_en"
    by (simp add: get_fallback_response_def dict_get_def fallback_messages_def)
  from ne show "error_msg lang = error_message_en"
    by (simp add: error_msg_def dict_get_def error_messages_def)
  from ne show "get_speech_hints lang = []"
    by (simp add: get_speech_hints_def hints_map_def dict_get_def)
  from ne show "get_voice_for_language default_voice lang = default_voice"
    by (simp add: get_voice_for_language_def dict_get_def)
  from ne show "get_twilio_language lang = ''en-IN''"
    by (simp add: get_twilio_language_def dict_get_def)
  from ne show "get_sarvam_language_code lang = ''hi-IN''"
    by (simp add: get_sarvam_language_code_def dict_get_def)
next
  assume "lang \<in> set supported_languages"
  then have c: "lang = ''hi'' \<or> lang = ''te'' \<or> lang = ''en'' \<or> lang = ''ur''"
    by (simp add: supported_cases)
  from c show "map_of greetings lang = Some (get_initial_greeting sid lang)"
    by (auto simp add: get_initial_greeting_def dict_get_def greetings_def)
  from c show "get_initial_greeting sid lang =
          (if lang = ''hi'' then greeting_hi else if lang = ''te'' then greeting_te
           else if lang = ''en'' then greeting_en else greeting_ur)"
    by (auto simp add: get_initial_greeting_def dict_get_def greetings_def)
  from c show "get_initial_greeting sid lang \<noteq> []"
    by (auto simp add: get_initial_greeting_def dict_get_def greetings_def texts_nonempty)
  from c show "map_of fallback_messages lang = Some (get_fallback_response lang)"
    by (auto simp add: get_fallback_response_def dict_get_def fallback_messages_def)
  from c show "get_fallback_response lang =
          (if lang = ''hi'' then fallback_message_hi else if lang = ''te'' then fallback_message_te
           else if lang = ''en'' then fallback_message_en else fallback_message_ur)"
    by (auto simp add: get_fallback_response_def dict_get_def fallback_messages_def)
  from c show "get_fallback_response lang \<noteq> []"
    by (auto simp add: get_fallback_response_def dict_get_def fallback_messages_def texts_nonempty)
  from c show "map_of error_messages lang = Some (error_msg lang)"
    by (auto simp add: error_msg_def dict_get_def error_messages_def)
  from c show "error_msg lang =
          (if lang = ''hi'' then error_message_hi else if lang = ''te'' then error_message_te
           else if lang = ''en'' then error_message_en else error_message_ur)"
    by (auto simp add: error_msg_def dict_get_def error_messages_def)
  from c show "error_msg lang \<noteq> []"
    by (auto simp add: error_msg_def dict_get_def error_messages_def texts_nonempty)
  from c show "map_of hints_map lang = Some (get_speech_hints lang)"
    by (auto simp add: get_speech_hints_def hints_map_def dict_get_def)
  from c show "get_speech_hints lang =
          (if lang = ''hi'' then hints_hi else if lang = ''te'' then hints_te
           else if lang = ''en'' then hints_en else hints_ur)"
    by (auto simp add: get_speech_hints_def hints_map_def dict_get_def)
  from c show "get_speech_hints lang \<noteq> []"
    by (auto simp add: get_speech_hints_def hints_map_def dict_get_def texts_nonempty)
  from c show "get_voice_for_language default_voice lang = ''meera''"
    by (auto simp add: get_voice_for_language_def dict_get_def)
  from c show "get_twilio_language lang = (if lang = ''ur'' then ''ur-PK'' else lang @ ''-IN'')"
    by (auto simp add: get_twilio_language_def dict_get_def)
  from c show "get_sarvam_language_code lang = get_twilio_language lang"
    by (auto simp add: get_sarvam_language_code_def get_twilio_language_def dict_get_def)
qed

theorem language_lookups_witness:
  "''fr'' \<notin> set supported_languages
   \<and> get_initial_greeting (Some ''CA1'') ''fr'' = greeting_en
   \<and> get_speech_hints ''fr'' = []
   \<and> get_twilio_language ''fr'' = ''en-IN''
   \<and> get_sarvam_language_code ''fr'' = ''hi-IN''
   \<and> ''te'' \<in> set supported_languages
   \<and> get_initial_greeting (Some ''CA1'') ''te'' = greeting_te
   \<and> get_speech_hints ''te'' = hints_te
   \<and> get_twilio_language ''te'' = ''te-IN''
   \<and> get_sarvam_language_code ''te'' = ''te-IN''
   \<and> ''ur'' \<in> set supported_languages
   \<and> get_fallback_response ''ur'' = fallback_message_ur
   \<and> error_msg ''ur'' = error_message_ur
   \<and> get_speech_hints ''ur'' = hints_ur
   \<and> get_twilio_language ''ur'' = ''ur-PK''"
  using language_lookups [of "''fr''" "Some ''CA1''" "''meera''"]
    language_lookups [of "''te''" "Some ''CA1''" "''meera''"]
    language_lookups [of "''ur''" "Some ''CA1''" "''meera''"]
  by (simp add: supported_languages_def)

text \<open>
  C4 as stated fails: the profile of the unsupported tag \<open>fr\<close> is the profile of none
  of the four supported languages, because its speech hints are empty; and its
  synthesis language code is the Hindi one while its recognition locale is the
  English one.
\<close>

theorem resolve_default_counterexample:
  "resolve sample_config ''fr'' \<noteq> resolve sample_config ''hi''
   \<and> resolve sample_config ''fr'' \<noteq> resolve sample_config ''te''
   \<and> resolve sample_config ''fr'' \<noteq> resolve sample_config ''en''
   \<and> resolve sample_config ''fr'' \<noteq> resolve sample_config ''ur''
   \<and> speech_hints (resolve sample_config ''fr'') = []
   \<and> get_sarvam_language_code ''fr'' = get_sarvam_language_code ''hi''
   \<and> get_twilio_language ''fr'' = get_twilio_language ''en''
   \<and> get_sarvam_language_code ''hi'' \<noteq> get_sarvam_language_code ''en''"
proof -
  have fr: "speech_hints (resolve sample_config ''fr'') = []"
    by (simp add: resolve_def get_speech_hints_def hints_map_def dict_get_def)
  have hi: "speech_hints (resolve sample_config ''hi'') \<noteq> []"
    and te: "speech_hints (resolve sample_config ''te'') \<noteq> []"
    and en: "speech_hints (resolve sample_config ''en'') \<noteq> []"
    and ur: "speech_hints (resolve sample_config ''ur'') \<noteq> []"
    by (simp_all add: resolve_def get_speech_hints_def hints_map_def dict_get_def texts_nonempty)
  have codes: "get_sarvam_language_code ''fr'' = get_sarvam_language_code ''hi''"
    "get_twilio_language ''fr'' = get_twilio_language ''en''"
    "get_sarvam_language_code ''hi'' \<noteq> get_sarvam_language_code ''en''"
    by (simp_all add: get_sarvam_language_code_def get_twilio_language_def dict_get_def)
  from fr hi te en ur codes show ?thesis by metis
qed

section \<open>Speech turns\<close>

lemma generate_error_response_hi:
  "generate_error_response ''hi'' = [Say error_message_hi ''hi-IN'', Hangup]"
  by (simp add: generate_error_response_def error_msg_def error_messages_def dict_get_def
      get_twilio_language_def)

lemma str_twiml_error_response:
  "str_twiml (generate_error_response lang) = Inr (generate_error_response lang)"
  by (simp add: str_twiml_def generate_error_response_def)

lemma process_speech_no_session:
  "call_sessions st (frm ''CallSid'') = None \<Longrightarrow>
     process_speech cfg w frm st = (TwiML (generate_error_response ''hi''), st)"
  by (simp add: process_speech_def Let_def str_twiml_error_response)

text \<open>
  C5. A speech turn whose call id has no session is answered with the error message
  followed by a hangup; the state is left as it was: no session is created or changed,
  and no request goes to the conversation engine.
\<close>

theorem process_speech_unknown_session:
  "call_sessions st (frm ''CallSid'') = None \<Longrightarrow>
     process_speech cfg w frm st = (TwiML [Say error_message_hi ''hi-IN'', Hangup], st)"
  by (simp add: process_speech_no_session generate_error_response_hi)

theorem process_speech_unknown_session_witness:
  "call_sessions sample_state (Some ''CA9'') = None
   \<and> process_speech sample_config
        (sample_world (Response 200 (Some (JList [JObj [(''text'', JStr ''Sure.'')]]))) (Raises Timeout))
        [''CallSid'' \<mapsto> ''CA9'', ''SpeechResult'' \<mapsto> ''book a room'', ''language'' \<mapsto> ''en'']
        sample_state
       = (TwiML [Say error_message_hi ''hi-IN'', Hangup], sample_state)"
  using process_speech_unknown_session [of sample_state
      "[''CallSid'' \<mapsto> ''CA9'', ''SpeechResult'' \<mapsto> ''book a room'', ''language'' \<mapsto> ''en'']"
      sample_config
      "sample_world (Response 200 (Some (JList [JObj [(''text'', JStr ''Sure.'')]]))) (Raises Timeout)"]
  by (simp add: sample_state_def)

text \<open>What a speech turn does when the call id has a session.\<close>

lemma process_speech_existing:
  assumes "call_sessions st (frm ''CallSid'') = Some sess"
  shows "\<exists>reply twiml.
           fst (send_message w (frm ''CallSid'')
                  (case frm ''SpeechResult'' of Some s \<Rightarrow> s | None \<Rightarrow> [])
                  (language sess) (conversation_history sess)) = Inr reply
           \<and> generate_response cfg w reply (language sess) False = Inr twiml
           \<and> process_speech cfg w frm st =
               (if list_all serialisable twiml then TwiML twiml else error_answer,
                st\<lparr>rasa_requests := rasa_requests st @
                      [build_payload (frm ''CallSid'')
                         (case frm ''SpeechResult'' of Some s \<Rightarrow> s | None \<Rightarrow> [])
                         (language sess) (conversation_history sess)],
                   call_sessions := (call_sessions st)(frm ''CallSid'' \<mapsto>
                      sess\<lparr>conversation_history := conversation_history sess @
                        [\<lparr>user = (case frm ''SpeechResult'' of Some s \<Rightarrow> s | None \<Rightarrow> []),
                          bot = reply\<rparr>]\<rparr>)\<rparr>)"
proof -
  let ?utt = "case frm ''SpeechResult'' of Some s \<Rightarrow> s | None \<Rightarrow> []"
  let ?sm = "send_message w (frm ''CallSid'') ?utt (language sess) (conversation_history sess)"
  obtain reply where reply: "fst ?sm = Inr reply"
    using send_message_returns by blast
  have sent: "snd ?sm = [build_payload (frm ''CallSid'') ?utt (language sess) (conversation_history sess)]"
    by (rule send_message_requests)
  obtain twiml where twiml: "generate_response cfg w reply (language sess) False = Inr twiml"
    using generate_response_returns by blast
  from reply sent have sm: "?sm = (Inr reply, [build_payload (frm ''CallSid'') ?utt (language sess) (conversation_history sess)])"
    by (simp add: prod_eq_iff)
  have "process_speech cfg w frm st =
          (if list_all serialisable twiml then TwiML twiml else error_answer,
           st\<lparr>rasa_requests := rasa_requests st @
                 [build_payload (frm ''CallSid'') ?utt (language sess) (conversation_history sess)],
              call_sessions := (call_sessions st)(frm ''CallSid'' \<mapsto>
                 sess\<lparr>conversation_history := conversation_history sess @
                   [\<lparr>user = ?utt, bot = reply\<rparr>]\<rparr>)\<rparr>)"
    using assms sm twiml by (simp add: process_speech_def Let_def str_twiml_def)
  with reply twiml show ?thesis by blast
qed

text \<open>
  C7. A speech turn on an existing session appends the pair of the utterance and the
  reply to the history: the earlier pairs stay as they were and in their order, the new
  pair is the last one, the history is longer by exactly one; the caller number and the
  language of the session are unchanged, the session stays under its call id, and the
  sessions of other call ids are untouched.
\<close>

theorem process_speech_appends_turn:
  assumes "call_sessions st (frm ''CallSid'') = Some sess"
  shows "\<exists>reply sess'.
           fst (send_message w (frm ''CallSid'')
                  (case frm ''SpeechResult'' of Some s \<Rightarrow> s | None \<Rightarrow> [])
                  (language sess) (conversation_history sess)) = Inr reply
           \<and> call_sessions (snd (process_speech cfg w frm st)) (frm ''CallSid'') = Some sess'
           \<and> conversation_history sess' =
               conversation_history sess @
                 [\<lparr>user = (case frm ''SpeechResult'' of Some s \<Rightarrow> s | None \<Rightarrow> []), bot = reply\<rparr>]
           \<and> take (length (conversation_history sess)) (conversation_history sess')
               = conversation_history sess
           \<and> length (conversation_history sess') = Suc (length (conversation_history sess))
           \<and> from_number sess' = from_number sess
           \<and> language sess' = language sess
           \<and> (\<forall>k. k \<noteq> frm ''CallSid'' \<longrightarrow>
                 call_sessions (snd (process_speech cfg w frm st)) k = call_sessions st k)"
proof -
  let ?utt = "case frm ''SpeechResult'' of Some s \<Rightarrow> s | None \<Rightarrow> []"
  from assms process_speech_existing [of st frm sess w cfg]
  obtain reply twiml where
    reply: "fst (send_message w (frm ''CallSid'') ?utt (language sess) (conversation_history sess)) = Inr reply"
    and whole: "process_speech cfg w frm st =
         (if list_all serialisable twiml then TwiML twiml else error_answer,
          st\<lparr>rasa_requests := rasa_requests st @
                 [build_payload (frm ''CallSid'') ?utt (language sess) (conversation_history sess)],
              call_sessions := (call_sessions st)(frm ''CallSid'' \<mapsto>
                 sess\<lparr>conversation_history := conversation_history sess @
                   [\<lparr>user = ?utt, bot = reply\<rparr>]\<rparr>)\<rparr>)"
    by auto
  from whole have ps: "snd (process_speech cfg w frm st) =
          st\<lparr>rasa_requests := rasa_requests st @
                 [build_payload (frm ''CallSid'') ?utt (language sess) (conversation_history sess)],
              call_sessions := (call_sessions st)(frm ''CallSid'' \<mapsto>
                 sess\<lparr>conversation_history := conversation_history sess @
                   [\<lparr>user = ?utt, bot = reply\<rparr>]\<rparr>)\<rparr>"
    by simp
  let ?sess' = "sess\<lparr>conversation_history := conversation_history sess @ [\<lparr>user = ?utt, bot = reply\<rparr>]\<rparr>"
  have "call_sessions (snd (process_speech cfg w frm st)) (frm ''CallSid'') = Some ?sess'"
    by (simp add: ps)
  moreover have "\<forall>k. k \<noteq> frm ''CallSid'' \<longrightarrow>
      call_sessions (snd (process_speech cfg w frm st)) k = call_sessions st k"
    by (simp add: ps)
  moreover have "conversation_history ?sess' = conversation_history sess @ [\<lparr>user = ?utt, bot = reply\<rparr>]"
    "take (length (conversation_history sess)) (conversation_history ?sess') = conversation_history sess"
    "length (conversation_history ?sess') = Suc (length (conversation_history sess))"
    "from_number ?sess' = from_number sess" "language ?sess' = language sess"
    by simp_all
  ultimately show ?thesis using reply by blast
qed

theorem process_speech_appends_turn_witness:
  "call_sessions sample_state (Some ''CA1'') = Some sample_session
   \<and> call_sessions
        (snd (process_speech sample_config
               (sample_world (Response 200 (Some (JList [JObj [(''text'', JStr ''Sure.'')]]))) (Raises Timeout))
               [''CallSid'' \<mapsto> ''CA1'', ''SpeechResult'' \<mapsto> ''book a room'']
               sample_state))
        (Some ''CA1'')
       = Some \<lparr>from_number = Some ''+911'', language = ''en'',
               conversation_history =
                 [\<lparr>user = ''hello'', bot = ''Hi there''\<rparr>,
                  \<lparr>user = ''book a room'', bot = ''Sure.''\<rparr>]\<rparr>"
  using process_speech_appends_turn [of sample_state
      "[''CallSid'' \<mapsto> ''CA1'', ''SpeechResult'' \<mapsto> ''book a room'']" sample_session
      "sample_world (Response 200 (Some (JList [JObj [(''text'', JStr ''Sure.'')]]))) (Raises Timeout)"
      sample_config]
  by (auto simp add: sample_state_def sample_session_def sample_world_def send_message_def
      send_message_try_def build_payload_def Let_def)


text \<open>
  C10. A speech turn on an existing session whose form has no \<open>SpeechResult\<close>
  field is an ordinary turn with the empty utterance: it does exactly what the same
  event with an empty \<open>SpeechResult\<close> does. One request goes to the conversation
  engine, carrying the empty message and the history of the session; the pair of the
  empty utterance and the reply is appended to the history; the answer is the markup
  of an ordinary turn for that reply, which is the error markup only when that
  document cannot be serialised.
\<close>

theorem process_speech_missing_speech_result:
  assumes "call_sessions st (frm ''CallSid'') = Some sess"
    and "frm ''SpeechResult'' = None"
  shows "\<exists>reply twiml.
           fst (send_message w (frm ''CallSid'') [] (language sess) (conversation_history sess))
             = Inr reply
           \<and> generate_response cfg w reply (language sess) False = Inr twiml
           \<and> fst (process_speech cfg w frm st) =
               (if list_all serialisable twiml then TwiML twiml
                else TwiML [Say error_message_hi ''hi-IN'', Hangup])
           \<and> rasa_requests (snd (process_speech cfg w frm st)) =
               rasa_requests st @
                 [\<lparr>sender = frm ''CallSid'', message = [], metadata_language = language sess,
                   metadata_conversation_history = conversation_history sess\<rparr>]
           \<and> call_sessions (snd (process_speech cfg w frm st)) =
               (call_sessions st)(frm ''CallSid'' \<mapsto>
                  sess\<lparr>conversation_history := conversation_history sess @
                    [\<lparr>user = [], bot = reply\<rparr>]\<rparr>)
           \<and> process_speech cfg w frm st = process_speech cfg w (frm(''SpeechResult'' \<mapsto> [])) st"
proof -
  from assms process_speech_existing [of st frm sess w cfg]
  obtain reply twiml where
    reply: "fst (send_message w (frm ''CallSid'') [] (language sess) (conversation_history sess)) = Inr reply"
    and twiml: "generate_response cfg w reply (language sess) False = Inr twiml"
    and whole: "process_speech cfg w frm st =
         (if list_all serialisable twiml then TwiML twiml else error_answer,
          st\<lparr>rasa_requests := rasa_requests st @
                 [build_payload (frm ''CallSid'') [] (language sess) (conversation_history sess)],
              call_sessions := (call_sessions st)(frm ''CallSid'' \<mapsto>
                 sess\<lparr>conversation_history := conversation_history sess @
                   [\<lparr>user = [], bot = reply\<rparr>]\<rparr>)\<rparr>)"
    by auto
  have payload: "build_payload (frm ''CallSid'') [] (language sess) (conversation_history sess) =
      \<lparr>sender = frm ''CallSid'', message = [], metadata_language = language sess,
       metadata_conversation_history = conversation_history sess\<rparr>"
    by (simp add: build_payload_def)
  from whole payload have
    "fst (process_speech cfg w frm st) =
       (if list_all serialisable twiml then TwiML twiml
        else TwiML [Say error_message_hi ''hi-IN'', Hangup])"
    "rasa_requests (snd (process_speech cfg w frm st)) =
       rasa_requests st @
         [\<lparr>sender = frm ''CallSid'', message = [], metadata_language = language sess,
           metadata_conversation_history = conversation_history sess\<rparr>]"
    "call_sessions (snd (process_speech cfg w frm st)) =
       (call_sessions st)(frm ''CallSid'' \<mapsto>
          sess\<lparr>conversation_history := conversation_history sess @ [\<lparr>user = [], bot = reply\<rparr>]\<rparr>)"
    by (simp_all add: error_answer_def generate_error_response_hi)
  moreover have "process_speech cfg w frm st = process_speech cfg w (frm(''SpeechResult'' \<mapsto> [])) st"
    using assms(2) by (simp add: process_speech_def)
  ultimately show ?thesis using reply twiml by blast
qed

theorem process_speech_missing_speech_result_witness:
  "call_sessions sample_state (Some ''CA1'') = Some sample_session
   \<and> [''CallSid'' \<mapsto> ''CA1''] ''SpeechResult'' = None
   \<and> process_speech sample_config
        (sample_world (Response 200 (Some (JList [JObj [(''text'', JStr ''Are you there?'')]])))
           (Raises Timeout))
        [''CallSid'' \<mapsto> ''CA1''] sample_state
       = (TwiML (Say ''Are you there?'' ''en-IN'' # listen_and_redirect sample_config ''en''),
          \<lparr>call_sessions = [Some ''CA1'' \<mapsto>
              \<lparr>from_number = Some ''+911'', language = ''en'',
               conversation_history =
                 [\<lparr>user = ''hello'', bot = ''Hi there''\<rparr>,
                  \<lparr>user = [], bot = ''Are you there?''\<rparr>]\<rparr>],
            rasa_requests =
              [\<lparr>sender = Some ''CA1'', message = [], metadata_language = ''en'',
                metadata_conversation_history = [\<lparr>user = ''hello'', bot = ''Hi there''\<rparr>]\<rparr>]\<rparr>)
   \<and> process_speech sample_config
        (sample_world (Response 200 (Some (JList [JObj [(''text'', JStr ''Are you there?'')]])))
           (Response 200 (Some (JObj [(''audio_url'', JNum 5)]))))
        [''CallSid'' \<mapsto> ''CA1''] sample_state
       = (TwiML [Say error_message_hi ''hi-IN'', Hangup],
          \<lparr>call_sessions = [Some ''CA1'' \<mapsto>
              \<lparr>from_number = Some ''+911'', language = ''en'',
               conversation_history =
                 [\<lparr>user = ''hello'', bot = ''Hi there''\<rparr>,
                  \<lparr>user = [], bot = ''Are you there?''\<rparr>]\<rparr>],
            rasa_requests =
              [\<lparr>sender = Some ''CA1'', message = [], metadata_language = ''en'',
                metadata_conversation_history = [\<lparr>user = ''hello'', bot = ''Hi there''\<rparr>]\<rparr>]\<rparr>)"
  using process_speech_missing_speech_result [of sample_state "[''CallSid'' \<mapsto> ''CA1'']"
      sample_session
      "sample_world (Response 200 (Some (JList [JObj [(''text'', JStr ''Are you there?'')]])))
           (Raises Timeout)"
      sample_config]
    process_speech_missing_speech_result [of sample_state "[''CallSid'' \<mapsto> ''CA1'']"
      sample_session
      "sample_world (Response 200 (Some (JList [JObj [(''text'', JStr ''Are you there?'')]])))
           (Response 200 (Some (JObj [(''audio_url'', JNum 5)])))"
      sample_config]
    sample_generate_speech_timeout [of "Response 200 (Some (JList [JObj [(''text'', JStr ''Are you there?'')]]))"
      "''Are you there?''" "''en''"]
  by (auto simp add: sample_state_def sample_session_def sample_world_def send_message_def
      send_message_try_def build_payload_def Let_def process_speech_def generate_response_def
      get_twilio_language_def dict_get_def str_twiml_def listen_and_redirect_def
      error_answer_def generate_error_response_hi generate_speech_def generate_speech_try_def
      sample_config_def)

section \<open>Status callbacks\<close>

text \<open>
  C6. A status callback is always answered with the acknowledgment object, never with
  markup. With a terminal status and a session for the call id, the session is removed
  and the others stay: the call id has no session afterwards, so that a later speech
  turn for it takes the missing-session path. With a terminal status and no session,
  and with any other status, the state is unchanged.
\<close>

theorem call_status_cleanup:
  "fst (call_status frm st) = JsonBody [(''status'', JStr ''received'')] 200
   \<and> \<not> is_markup (fst (call_status frm st))
   \<and> (terminal_status (frm ''CallStatus'') \<and> call_sessions st (frm ''CallSid'') \<noteq> None \<longrightarrow>
        call_sessions (snd (call_status frm st)) = (call_sessions st)(frm ''CallSid'' := None)
        \<and> rasa_requests (snd (call_status frm st)) = rasa_requests st
        \<and> call_sessions (snd (call_status frm st)) (frm ''CallSid'') = None
        \<and> (turn ''CallSid'' = frm ''CallSid'' \<longrightarrow>
             process_speech cfg w turn (snd (call_status frm st)) =
               (TwiML (generate_error_response ''hi''), snd (call_status frm st))))
   \<and> (terminal_status (frm ''CallStatus'') \<and> call_sessions st (frm ''CallSid'') = None \<longrightarrow>
        snd (call_status frm st) = st)
   \<and> (\<not> terminal_status (frm ''CallStatus'') \<longrightarrow> snd (call_status frm st) = st)"
proof -
  have member: "frm ''CallStatus'' \<in> set [Some ''completed'', Some ''failed'', Some ''busy'', Some ''no-answer'']
      \<longleftrightarrow> terminal_status (frm ''CallStatus'')"
    by (cases "frm ''CallStatus''") (auto simp add: terminal_status_def)
  have ack: "fst (call_status frm st) = JsonBody [(''status'', JStr ''received'')] 200"
    by (simp add: call_status_def Let_def)
  have del: "call_sessions (snd (call_status frm st)) = (call_sessions st)(frm ''CallSid'' := None)
      \<and> rasa_requests (snd (call_status frm st)) = rasa_requests st"
    if "terminal_status (frm ''CallStatus'')" "call_sessions st (frm ''CallSid'') \<noteq> None"
    using that member by (simp add: call_status_def Let_def)
  have gone: "process_speech cfg w turn (snd (call_status frm st)) =
               (TwiML (generate_error_response ''hi''), snd (call_status frm st))"
    if "terminal_status (frm ''CallStatus'')" "call_sessions st (frm ''CallSid'') \<noteq> None"
      "turn ''CallSid'' = frm ''CallSid''"
    using del [OF that(1,2)] that(3) by (simp add: process_speech_no_session)
  have noop: "snd (call_status frm st) = st"
    if "terminal_status (frm ''CallStatus'')" "call_sessions st (frm ''CallSid'') = None"
    using that member by (simp add: call_status_def Let_def)
  have other: "snd (call_status frm st) = st" if "\<not> terminal_status (frm ''CallStatus'')"
    using that member by (simp add: call_status_def Let_def)
  from ack del gone noop other show ?thesis by simp
qed

theorem call_status_cleanup_witness:
  "terminal_status ([''CallSid'' \<mapsto> ''CA1'', ''CallStatus'' \<mapsto> ''completed''] ''CallStatus'')
   \<and> call_sessions sample_state (Some ''CA1'') \<noteq> None
   \<and> call_status [''CallSid'' \<mapsto> ''CA1'', ''CallStatus'' \<mapsto> ''completed''] sample_state
       = (JsonBody [(''status'', JStr ''received'')] 200,
          \<lparr>call_sessions = Map.empty, rasa_requests = []\<rparr>)
   \<and> process_speech sample_config (sample_world (Raises Timeout) (Raises Timeout))
        [''CallSid'' \<mapsto> ''CA1'', ''SpeechResult'' \<mapsto> ''hello'']
        (snd (call_status [''CallSid'' \<mapsto> ''CA1'', ''CallStatus'' \<mapsto> ''completed''] sample_state))
       = (TwiML (generate_error_response ''hi''), \<lparr>call_sessions = Map.empty, rasa_requests = []\<rparr>)
   \<and> terminal_status ([''CallSid'' \<mapsto> ''CA9'', ''CallStatus'' \<mapsto> ''busy''] ''CallStatus'')
   \<and> call_sessions sample_state (Some ''CA9'') = None
   \<and> call_status [''CallSid'' \<mapsto> ''CA9'', ''CallStatus'' \<mapsto> ''busy''] sample_state
       = (JsonBody [(''status'', JStr ''received'')] 200, sample_state)
   \<and> \<not> terminal_status ([''CallSid'' \<mapsto> ''CA1'', ''CallStatus'' \<mapsto> ''ringing''] ''CallStatus'')
   \<and> call_status [''CallSid'' \<mapsto> ''CA1'', ''CallStatus'' \<mapsto> ''ringing''] sample_state
       = (JsonBody [(''status'', JStr ''received'')] 200, sample_state)"
  using
    call_status_cleanup [of "[''CallSid'' \<mapsto> ''CA1'', ''CallStatus'' \<mapsto> ''completed'']" sample_state
      "[''CallSid'' \<mapsto> ''CA1'', ''SpeechResult'' \<mapsto> ''hello'']" sample_config
      "sample_world (Raises Timeout) (Raises Timeout)"]
    call_status_cleanup [of "[''CallSid'' \<mapsto> ''CA9'', ''CallStatus'' \<mapsto> ''busy'']" sample_state
      "[''CallSid'' \<mapsto> ''CA9'', ''SpeechResult'' \<mapsto> ''hello'']" sample_config
      "sample_world (Raises Timeout) (Raises Timeout)"]
    call_status_cleanup [of "[''CallSid'' \<mapsto> ''CA1'', ''CallStatus'' \<mapsto> ''ringing'']" sample_state
      "[''CallSid'' \<mapsto> ''CA1'', ''SpeechResult'' \<mapsto> ''hello'']" sample_config
      "sample_world (Raises Timeout) (Raises Timeout)"]
  by (auto simp add: terminal_status_def sample_state_def prod_eq_iff fun_eq_iff)

section \<open>Health endpoint\<close>

text \<open>
  C9 (as amended). The health endpoint answers with an object of exactly the members
  \<open>status\<close>, \<open>rasa_status\<close> and \<open>twilio_status\<close>: the constant
  \<open>healthy\<close>, whether the status request to the conversation engine was answered
  with 200, and the constant \<open>connected\<close>; no member reports on the speech
  synthesis provider.
\<close>

theorem health_members:
  "json_keys (health w) = [''status'', ''rasa_status'', ''twilio_status'']
   \<and> health w =
       JsonBody [(''status'', JStr ''healthy''),
                 (''rasa_status'',
                  JBool (case rasa_get_status w of
                           Raises e \<Rightarrow> False
                         | Response status_code body \<Rightarrow> status_code = 200)),
                 (''twilio_status'', JStr ''connected'')] 200
   \<and> health (w\<lparr>sarvam_post := provider, save_audio := saver\<rparr>) = health w"
  by (simp add: health_def check_health_def)

text \<open>
  C9 as stated fails: the members of the answer are not \<open>status\<close>,
  \<open>nlu_status\<close> and \<open>tts_status\<close>.
\<close>

theorem health_members_counterexample:
  "set (json_keys (health (sample_world (Raises Timeout) (Raises Timeout))))
     \<noteq> {''status'', ''nlu_status'', ''tts_status''}"
proof -
  have "''rasa_status'' \<in> set (json_keys (health (sample_world (Raises Timeout) (Raises Timeout))))"
    by (simp add: health_def)
  moreover have "''rasa_status'' \<notin> {''status'', ''nlu_status'', ''tts_status''}"
    by simp
  ultimately show ?thesis by metis
qed

end
